theory Spec2Isabelle
  imports Main
begin

section \<open>The array query provider of jinqu\<close>

text \<open>
  A shallow embedding of \<^verbatim>\<open>src/lib/array-query-provider.ts\<close>: the executor
  \<^verbatim>\<open>execute\<close>, its dispatch \<^verbatim>\<open>handlePart\<close> over the table \<^verbatim>\<open>funcs\<close>, the multi-key
  sort \<^verbatim>\<open>orderBy\<close> and the operators the verified properties are about.

  Conventions of the embedding.
  \<^item> A JavaScript array is a HOL list. Items of a sequence are values of one type \<open>'a\<close>
    on which \<^verbatim>\<open>==\<close> is equality (numbers other than NaN, or strings); keys that are
    compared with \<^verbatim>\<open><\<close> and \<^verbatim>\<open>>\<close> are values of a linearly ordered type.
  \<^item> Where the source can produce \<^verbatim>\<open>undefined\<close> or \<^verbatim>\<open>null\<close> beside a value, the
    result has type \<open>'a js\<close>.
  \<^item> Every \<^verbatim>\<open>throw\<close> is a result \<open>Inl e\<close> of a sum type.
  \<^item> Callbacks (predicates, selectors, comparers) are total, pure HOL functions; a
    predicate's result is the truthiness of what the JavaScript callback returns.
  \<^item> A generator function (\<^verbatim>\<open>function*\<close>) is embedded as the list of the items it
    yields when it is consumed to the end.
  \<^item> For the effect of a pipeline on the arrays it is given, the last part of the
    definitions embeds every operator of the table once more, on a heap: there an
    array is an object with an address, and the writes of the operators are writes
    into the heap.
\<close>

subsection \<open>Values, arguments, parts and errors\<close>

datatype 'a js = Undefined | Null | Val 'a

text \<open>
  Modelled from the spec: \<^verbatim>\<open>QueryFunc\<close> is declared in \<^verbatim>\<open>./query-part\<close>, which is not
  among the sources. The spec makes it a fixed closed set of operator kinds; the kinds
  are the ones the provider names: the keys of \<^verbatim>\<open>funcs\<close> and the four ordering kinds.
\<close>

datatype QueryFunc =
    QueryFunc_where | QueryFunc_ofType | QueryFunc_cast | QueryFunc_select
  | QueryFunc_selectMany | QueryFunc_joinWith | QueryFunc_groupJoin
  | QueryFunc_orderBy | QueryFunc_orderByDescending | QueryFunc_thenBy
  | QueryFunc_thenByDescending
  | QueryFunc_take | QueryFunc_takeWhile | QueryFunc_skip | QueryFunc_skipWhile
  | QueryFunc_groupBy | QueryFunc_distinct | QueryFunc_concatWith | QueryFunc_zip
  | QueryFunc_union | QueryFunc_intersect | QueryFunc_except
  | QueryFunc_defaultIfEmpty | QueryFunc_reverse
  | QueryFunc_first | QueryFunc_firstOrDefault | QueryFunc_last
  | QueryFunc_lastOrDefault | QueryFunc_single | QueryFunc_singleOrDefault
  | QueryFunc_elementAt | QueryFunc_elementAtOrDefault | QueryFunc_contains
  | QueryFunc_sequenceEqual | QueryFunc_any | QueryFunc_all | QueryFunc_count
  | QueryFunc_min | QueryFunc_max | QueryFunc_sum | QueryFunc_average
  | QueryFunc_aggregate

text \<open>
  Modelled from the spec: \<^verbatim>\<open>IPartArgument\<close> and \<^verbatim>\<open>IQueryPart\<close> are declared in
  \<^verbatim>\<open>./types\<close>, which is not among the sources. By the spec a part argument is either
  a literal or a callable, and an operator inspects which one is present; a query part
  is an operator kind with its ordered arguments. The source reads them as
  \<^verbatim>\<open>arg.func\<close>, \<^verbatim>\<open>arg.literal\<close>, \<^verbatim>\<open>part.type\<close> and \<^verbatim>\<open>part.args\<close>.
\<close>

record ('f, 'l) IPartArgument =
  func :: "'f option"
  literal :: "'l option"

record ('f, 'l) IQueryPart =
  type :: QueryFunc
  args :: "('f, 'l) IPartArgument list"

text \<open>
  The errors of the provider, named as the spec's taxonomy names them:
  \<^item> \<open>InvalidSource\<close>: \<^verbatim>\<open>TypeError('Cannot query null array.')\<close>;
  \<^item> \<open>UnknownOperator t\<close>: \<^verbatim>\<open>Error(`Unknown query part type ${part.type}.`)\<close>;
  \<^item> \<open>EmptySequence\<close>: \<^verbatim>\<open>Error('Sequence contains no element')\<close>;
  \<^item> \<open>NoMatch\<close>: \<^verbatim>\<open>Error('Sequence contains no matching element')\<close>;
  \<^item> \<open>MultipleMatches\<close>: \<^verbatim>\<open>Error('Sequence contains more than one matching element')\<close>;
  \<^item> \<open>IndexOutOfRange\<close>: \<^verbatim>\<open>Error('Index was outside the bounds of the array.')\<close>;
  \<^item> \<open>TypeError\<close>: the error JavaScript itself raises when a value that is
    \<^verbatim>\<open>undefined\<close> is called or has a property read;
  \<^item> \<open>InvalidCast\<close>: \<^verbatim>\<open>Error(`Unable to cast ${i}`)\<close>.
\<close>

datatype error =
    InvalidSource | UnknownOperator QueryFunc | EmptySequence | NoMatch
  | MultipleMatches | IndexOutOfRange | TypeError | InvalidCast

text \<open>An argument that carries a callable, and one that carries a literal.\<close>

definition callable :: "'f \<Rightarrow> ('f, 'l) IPartArgument" where
  "callable f = \<lparr>func = Some f, literal = None\<rparr>"

definition lit :: "'l \<Rightarrow> ('f, 'l) IPartArgument" where
  "lit v = \<lparr>func = None, literal = Some v\<rparr>"

definition no_argument :: "('f, 'l) IPartArgument" where
  "no_argument = \<lparr>func = None, literal = None\<rparr>"

text \<open>\<^verbatim>\<open>items[i]\<close>: the element, or \<^verbatim>\<open>undefined\<close> outside \<open>0 .. length - 1\<close>.\<close>

definition index_read :: "'a list \<Rightarrow> int \<Rightarrow> 'a js" where
  "index_read items i =
     (if 0 \<le> i \<and> i < int (length items) then Val (items ! nat i) else Undefined)"

text \<open>\<^verbatim>\<open>xs.indexOf(x)\<close>: the first index of \<open>x\<close>, or \<open>-1\<close>.\<close>

fun indexOf :: "'a list \<Rightarrow> 'a \<Rightarrow> int" where
  "indexOf [] x = -1"
| "indexOf (y # ys) x =
     (if y = x then 0 else (let r = indexOf ys x in if r = -1 then -1 else r + 1))"

subsection \<open>Element accessors\<close>

text \<open>
  An accessor is called by \<^verbatim>\<open>handlePart\<close> with the value the executor threads through
  the parts: the source array, or what the part before it returned. A lazy operator
  (\<^verbatim>\<open>function*\<close>) returns a generator, so the sequence an accessor receives is an array
  or a generator. \<open>Generator xs e\<close> is a generator that, consumed by a \<^verbatim>\<open>for ... of\<close>
  loop, yields the items \<open>xs\<close> and then ends, or raises \<open>e\<close> when it has one (as the
  generator of \<^verbatim>\<open>cast\<close> does).
\<close>

datatype 'a sequence = Array "'a list" | Generator "'a list" "error option"

text \<open>What a \<^verbatim>\<open>for ... of\<close> loop over the sequence gets: the items, and how they end.\<close>

fun yields :: "'a sequence \<Rightarrow> 'a list" where
  "yields (Array xs) = xs"
| "yields (Generator xs e) = xs"

fun ending :: "'a sequence \<Rightarrow> error option" where
  "ending (Array xs) = None"
| "ending (Generator xs e) = e"

text \<open>
  \<^verbatim>\<open>items.length\<close>: the length of an array; a generator has no such property, the read
  gives \<^verbatim>\<open>undefined\<close>. \<^verbatim>\<open>!items.length\<close> is true for \<open>0\<close> and for \<^verbatim>\<open>undefined\<close>.
\<close>

fun length_property :: "'a sequence \<Rightarrow> nat js" where
  "length_property (Array xs) = Val (length xs)"
| "length_property (Generator xs e) = Undefined"

definition not_length :: "'a sequence \<Rightarrow> bool" where
  "not_length items =
     (case length_property items of Val n \<Rightarrow> n = 0 | Undefined \<Rightarrow> True | Null \<Rightarrow> True)"

text \<open>
  \<^verbatim>\<open>
  function getFirst(items, predicate) {
      for (let i of items) {
          if (!predicate.func || predicate.func(i)) return [true, i];
      }
      return [false, null]
  }
  \<close>
  \<open>getFirst_loop\<close> is the loop over the items that are still to come; when they are
  used up, a generator that ends with an error raises it.
\<close>

fun getFirst_loop ::
  "'a list \<Rightarrow> error option \<Rightarrow> ('a \<Rightarrow> bool, 'l) IPartArgument \<Rightarrow> error + bool \<times> 'a js" where
  "getFirst_loop [] fin predicate =
     (case fin of None \<Rightarrow> Inr (False, Null) | Some e \<Rightarrow> Inl e)"
| "getFirst_loop (i # items) fin predicate =
     (if (case func predicate of None \<Rightarrow> True | Some p \<Rightarrow> p i) then Inr (True, Val i)
      else getFirst_loop items fin predicate)"

definition getFirst ::
  "'a sequence \<Rightarrow> ('a \<Rightarrow> bool, 'l) IPartArgument \<Rightarrow> error + bool \<times> 'a js" where
  "getFirst items predicate = getFirst_loop (yields items) (ending items) predicate"

text \<open>
  \<^verbatim>\<open>
  function first(items, predicate) {
      if (!items.length) throw new Error('Sequence contains no element')
      const [found, item] = getFirst(items, predicate);
      if (!found) throw new Error('Sequence contains no matching element');
      return item;
  }
  function firstOrDefault(items, predicate) {
      return getFirst(items, predicate)[1];
  }
  \<close>
\<close>

definition first :: "'a sequence \<Rightarrow> ('a \<Rightarrow> bool, 'l) IPartArgument \<Rightarrow> error + 'a js" where
  "first items predicate =
     (if not_length items then Inl EmptySequence
      else (case getFirst items predicate of
              Inl e \<Rightarrow> Inl e
            | Inr (found, item) \<Rightarrow> if \<not> found then Inl NoMatch else Inr item))"

definition firstOrDefault ::
  "'a sequence \<Rightarrow> ('a \<Rightarrow> bool, 'l) IPartArgument \<Rightarrow> error + 'a js" where
  "firstOrDefault items predicate =
     (case getFirst items predicate of Inl e \<Rightarrow> Inl e | Inr r \<Rightarrow> Inr (snd r))"

text \<open>
  \<^verbatim>\<open>
  function getLast(items, predicate) {
      for (let i = items.length - 1; i >= 0; i--) {
          const item = items[i];
          if (!predicate.func || predicate.func(item)) return [true, item];
      }
      return [false, null];
  }
  \<close>
  On an array the loop walks the indices downwards; \<open>getLast_from items predicate n\<close>
  is the loop with \<open>n = i + 1\<close>. On a generator \<^verbatim>\<open>items.length - 1\<close> is \<^verbatim>\<open>NaN\<close>, the test
  \<^verbatim>\<open>i >= 0\<close> is false at once and the generator is not consumed.
\<close>

fun getLast_from :: "'a list \<Rightarrow> ('a \<Rightarrow> bool, 'l) IPartArgument \<Rightarrow> nat \<Rightarrow> bool \<times> 'a js" where
  "getLast_from items predicate 0 = (False, Null)"
| "getLast_from items predicate (Suc i) =
     (let item = items ! i in
      if (case func predicate of None \<Rightarrow> True | Some p \<Rightarrow> p item) then (True, Val item)
      else getLast_from items predicate i)"

fun getLast :: "'a sequence \<Rightarrow> ('a \<Rightarrow> bool, 'l) IPartArgument \<Rightarrow> bool \<times> 'a js" where
  "getLast (Array xs) predicate = getLast_from xs predicate (length xs)"
| "getLast (Generator xs e) predicate = (False, Null)"

text \<open>
  \<^verbatim>\<open>
  function last(items, predicate) {
      if (!items.length) throw new Error('Sequence contains no element');
      const [found, item] = getLast(items, predicate);
      if (!found) throw new Error('Sequence contains no matching element');
      return item;
  }
  function lastOrDefault(items, predicate) {
      return getLast(items, predicate)[1];
  }
  \<close>
\<close>

definition last_op :: "'a sequence \<Rightarrow> ('a \<Rightarrow> bool, 'l) IPartArgument \<Rightarrow> error + 'a js" where
  "last_op items predicate =
     (if not_length items then Inl EmptySequence
      else (case getLast items predicate of
              (found, item) \<Rightarrow> if \<not> found then Inl NoMatch else Inr item))"

definition lastOrDefault :: "'a sequence \<Rightarrow> ('a \<Rightarrow> bool, 'l) IPartArgument \<Rightarrow> 'a js" where
  "lastOrDefault items predicate = snd (getLast items predicate)"

text \<open>
  \<^verbatim>\<open>
  function getSingle(items, predicate) {
      let matches = [];
      for (let item of items) {
          if (predicate.func && !predicate.func(item)) continue;
          if (matches.length > 0)
              throw new Error('Sequence contains more than one matching element');
          matches.push(item);
      }
      return matches.length ? [true, matches[0]] : [false, null];
  }
  \<close>
  \<open>getSingle_loop\<close> is the \<^verbatim>\<open>for\<close> loop over the items that are still to come, with
  \<^verbatim>\<open>matches\<close> as its state; when they are used up, a generator that ends with an error
  raises it.
\<close>

fun getSingle_loop ::
  "'a list \<Rightarrow> error option \<Rightarrow> ('a \<Rightarrow> bool, 'l) IPartArgument \<Rightarrow> 'a list \<Rightarrow> error + 'a list" where
  "getSingle_loop [] fin predicate matches =
     (case fin of None \<Rightarrow> Inr matches | Some e \<Rightarrow> Inl e)"
| "getSingle_loop (item # items) fin predicate matches =
     (if (case func predicate of None \<Rightarrow> False | Some p \<Rightarrow> \<not> p item)
      then getSingle_loop items fin predicate matches
      else if length matches > 0 then Inl MultipleMatches
      else getSingle_loop items fin predicate (matches @ [item]))"

definition getSingle ::
  "'a sequence \<Rightarrow> ('a \<Rightarrow> bool, 'l) IPartArgument \<Rightarrow> error + bool \<times> 'a js" where
  "getSingle items predicate =
     (case getSingle_loop (yields items) (ending items) predicate [] of
        Inl e \<Rightarrow> Inl e
      | Inr matches \<Rightarrow>
          Inr (if length matches \<noteq> 0 then (True, Val (matches ! 0)) else (False, Null)))"

text \<open>
  \<^verbatim>\<open>
  function single(items, predicate) {
      if (!items.length) throw new Error('Sequence contains no element');
      const [found, item] = getSingle(items, predicate);
      if (!found) throw new Error('Sequence contains no matching element');
      return item;
  }
  function singleOrDefault(items, predicate) {
      return getSingle(items, predicate)[1];
  }
  \<close>
\<close>

definition single_op :: "'a sequence \<Rightarrow> ('a \<Rightarrow> bool, 'l) IPartArgument \<Rightarrow> error + 'a js" where
  "single_op items predicate =
     (if not_length items then Inl EmptySequence
      else (case getSingle items predicate of
              Inl e \<Rightarrow> Inl e
            | Inr (found, item) \<Rightarrow> if \<not> found then Inl NoMatch else Inr item))"

definition singleOrDefault ::
  "'a sequence \<Rightarrow> ('a \<Rightarrow> bool, 'l) IPartArgument \<Rightarrow> error + 'a js" where
  "singleOrDefault items predicate =
     (case getSingle items predicate of Inl e \<Rightarrow> Inl e | Inr r \<Rightarrow> Inr (snd r))"

text \<open>
  \<^verbatim>\<open>
  function elementAt(items, index) {
      if (index.literal > items.length)
          throw new Error('Index was outside the bounds of the array.');
      return items[index.literal];
  }
  function elementAtOrDefault(items, index) {
      return items[index.literal];
  }
  \<close>
  The index is an integer; an argument without a literal reads \<^verbatim>\<open>undefined\<close>, for which
  the comparison is false and the property read gives \<^verbatim>\<open>undefined\<close>.
\<close>

definition elementAt :: "'a list \<Rightarrow> ('f, int) IPartArgument \<Rightarrow> error + 'a js" where
  "elementAt items index =
     (case literal index of
        None \<Rightarrow> Inr Undefined
      | Some i \<Rightarrow>
          if i > int (length items) then Inl IndexOutOfRange else Inr (index_read items i))"

definition elementAtOrDefault :: "'a list \<Rightarrow> ('f, int) IPartArgument \<Rightarrow> 'a js" where
  "elementAtOrDefault items index =
     (case literal index of None \<Rightarrow> Undefined | Some i \<Rightarrow> index_read items i)"

text \<open>The items a predicate argument accepts: all of them when it carries no callable.\<close>

definition matching :: "('a \<Rightarrow> bool, 'l) IPartArgument \<Rightarrow> 'a list \<Rightarrow> 'a list" where
  "matching predicate items =
     filter (\<lambda>i. case func predicate of None \<Rightarrow> True | Some p \<Rightarrow> p i) items"

subsection \<open>Ordering: the multi-key sort\<close>

text \<open>
  \<^verbatim>\<open>
  const thenFuncs = [QueryFunc.thenBy, QueryFunc.thenByDescending];
  const descFuncs = [QueryFunc.orderByDescending, QueryFunc.thenByDescending];
  \<close>
\<close>

definition thenFuncs :: "QueryFunc list" where
  "thenFuncs = [QueryFunc_thenBy, QueryFunc_thenByDescending]"

definition descFuncs :: "QueryFunc list" where
  "descFuncs = [QueryFunc_orderByDescending, QueryFunc_thenByDescending]"

text \<open>
  The comparator that \<^verbatim>\<open>orderBy\<close> hands to \<^verbatim>\<open>sort\<close>:
  \<^verbatim>\<open>
  (i1, i2) => {
      for (let s of keySelectors) {
          const desc = descFuncs.indexOf(s.type) ? -1 : 1;
          const sel = s.args[0];
          const v1 = sel.func(i1);
          const v2 = sel.func(i2);
          if (v1 > v2) return desc;
          if (v1 < v2) return -1 * desc;
      }
  }
  \<close>
  The condition of \<^verbatim>\<open>desc\<close> is the truthiness of a number: true unless it is \<open>0\<close>.
  Falling out of the loop returns \<^verbatim>\<open>undefined\<close>. A part without a first argument, or
  whose first argument has no callable, raises a \<open>TypeError\<close>.
\<close>

fun compare_keys ::
  "('a \<Rightarrow> 'k::linorder, 'l) IQueryPart list \<Rightarrow> 'a \<Rightarrow> 'a \<Rightarrow> error + int js" where
  "compare_keys [] i1 i2 = Inr Undefined"
| "compare_keys (s # keySelectors) i1 i2 =
     (let desc = (if indexOf descFuncs (type s) \<noteq> 0 then -1 else 1) in
      case args s of
        [] \<Rightarrow> Inl TypeError
      | sel # _ \<Rightarrow>
          (case func sel of
             None \<Rightarrow> Inl TypeError
           | Some f \<Rightarrow>
               (let v1 = f i1; v2 = f i2 in
                if v1 > v2 then Inr (Val desc)
                else if v1 < v2 then Inr (Val (-1 * desc))
                else compare_keys keySelectors i1 i2)))"

text \<open>
  \<^verbatim>\<open>Array.prototype.sort\<close> is a builtin of the language. It reads a comparator's result
  as a number, \<^verbatim>\<open>undefined\<close> counting as \<open>0\<close>; a negative result puts the first argument
  before the second; it is stable (ECMAScript 2019, and the spec requires it). It is
  modelled as the stable insertion sort: an element is put in front of the first later
  element that the comparator does not put before it. An error of the comparator
  ends the sort.
\<close>

definition comparator_result :: "int js \<Rightarrow> int" where
  "comparator_result v = (case v of Val n \<Rightarrow> n | Undefined \<Rightarrow> 0 | Null \<Rightarrow> 0)"

fun sort_insert ::
  "('a \<Rightarrow> 'a \<Rightarrow> error + int js) \<Rightarrow> 'a \<Rightarrow> 'a list \<Rightarrow> error + 'a list" where
  "sort_insert comparefn x [] = Inr [x]"
| "sort_insert comparefn x (y # ys) =
     (case comparefn x y of
        Inl e \<Rightarrow> Inl e
      | Inr v \<Rightarrow>
          if comparator_result v \<le> 0 then Inr (x # y # ys)
          else (case sort_insert comparefn x ys of
                  Inl e \<Rightarrow> Inl e
                | Inr zs \<Rightarrow> Inr (y # zs)))"

fun Array_sort :: "('a \<Rightarrow> 'a \<Rightarrow> error + int js) \<Rightarrow> 'a list \<Rightarrow> error + 'a list" where
  "Array_sort comparefn [] = Inr []"
| "Array_sort comparefn (x # xs) =
     (case Array_sort comparefn xs of
        Inl e \<Rightarrow> Inl e
      | Inr ys \<Rightarrow> sort_insert comparefn x ys)"

text \<open>\<^verbatim>\<open>items.slice()\<close>: a copy of the array.\<close>

definition slice :: "'a list \<Rightarrow> 'a list" where
  "slice items = items"

text \<open>
  \<^verbatim>\<open>
  function orderBy(items, keySelectors) {
      return items.slice().sort((i1, i2) => { ... });
  }
  \<close>
\<close>

definition orderBy ::
  "'a list \<Rightarrow> ('a \<Rightarrow> 'k::linorder, 'l) IQueryPart list \<Rightarrow> error + 'a list" where
  "orderBy items keySelectors = Array_sort (compare_keys keySelectors) (slice items)"

text \<open>An ordering part of kind \<open>t\<close> with key selector \<open>k\<close>.\<close>

definition ordering :: "QueryFunc \<Rightarrow> ('a \<Rightarrow> 'k) \<Rightarrow> ('a \<Rightarrow> 'k, 'l) IQueryPart" where
  "ordering t k = \<lparr>type = t, args = [callable k]\<rparr>"

subsection \<open>Grouping, distinct, zip\<close>

text \<open>
  Modelled from the spec: \<^verbatim>\<open>deepEqual\<close> is the package \<^verbatim>\<open>deep-equal\<close>, which is not among
  the sources; the spec calls it deep structural equality of keys. Keys are values of
  one HOL type, whose equality is structural.
\<close>

definition deepEqual :: "'k \<Rightarrow> 'k \<Rightarrow> bool" where
  "deepEqual a b = (a = b)"

text \<open>
  A group is an array with a \<^verbatim>\<open>key\<close> property: \<^verbatim>\<open>const group = []; group['key'] = k;\<close>
\<close>

record ('k, 'a) group =
  key :: 'k
  members :: "'a list"

text \<open>
  \<^verbatim>\<open>a.push(i)\<close>, where \<^verbatim>\<open>a = groups.find(g => deepEqual(g.key, k))\<close> is the first group
  whose key matches: the push changes that group inside \<^verbatim>\<open>groups\<close>.
\<close>

fun push_found :: "('k, 'a) group list \<Rightarrow> 'k \<Rightarrow> 'a \<Rightarrow> ('k, 'a) group list" where
  "push_found [] k i = []"
| "push_found (g # groups) k i =
     (if deepEqual (key g) k then g\<lparr>members := members g @ [i]\<rparr> # groups
      else g # push_found groups k i)"

text \<open>
  \<^verbatim>\<open>
  function* groupBy(items, keySelector, valueSelector) {
      const groups = [];
      for (let i of items) {
          const k = keySelector.func(i);
          const a = groups.find(g => deepEqual(g.key, k));
          if (!a) {
              const group = [];
              group['key'] = k;
              groups.push(group);
          }
          else {
              a.push(i);
          }
      }
      for (let g of groups)
          yield valueSelector.func(g);
  }
  \<close>
  \<open>groupBy_loop\<close> is the first loop, with \<^verbatim>\<open>groups\<close> as its state.
\<close>

fun groupBy_loop ::
  "'a list \<Rightarrow> ('a \<Rightarrow> 'k) \<Rightarrow> ('k, 'a) group list \<Rightarrow> ('k, 'a) group list" where
  "groupBy_loop [] keySelector groups = groups"
| "groupBy_loop (i # items) keySelector groups =
     (let k = keySelector i in
      case find (\<lambda>g. deepEqual (key g) k) groups of
        None \<Rightarrow> groupBy_loop items keySelector (groups @ [\<lparr>key = k, members = []\<rparr>])
      | Some a \<Rightarrow> groupBy_loop items keySelector (push_found groups k i))"

definition groupBy ::
  "'a list \<Rightarrow> ('a \<Rightarrow> 'k, 'l) IPartArgument \<Rightarrow> (('k, 'a) group \<Rightarrow> 'v, 'm) IPartArgument
     \<Rightarrow> error + 'v list" where
  "groupBy items keySelector valueSelector =
     (if items = [] then Inr []
      else (case func keySelector of
              None \<Rightarrow> Inl TypeError
            | Some ks \<Rightarrow>
                (case func valueSelector of
                   None \<Rightarrow> Inl TypeError
                 | Some vs \<Rightarrow> Inr (map vs (groupBy_loop items ks [])))))"

text \<open>
  \<^verbatim>\<open>
  function* distinct(items, comparer) {
      const r = [];
      for (let i = 0; i < items.length; i++) {
          const i1 = items[i];
          let j = i
          for (; j < items.length; j++) {
              const i2 = items[j];
              if (comparer.func ? comparer.func(i1, i2) : (i1 == i2)) break;
          }
          if (j === items.length)
              yield i1;
      }
      return r;
  }
  \<close>
  \<open>distinct_scan\<close> is the inner loop and gives the \<open>j\<close> it ends with; \<open>distinct_from\<close>
  is the outer loop from index \<open>i\<close> on.
\<close>

function distinct_scan ::
  "'a list \<Rightarrow> ('a \<Rightarrow> 'a \<Rightarrow> bool, 'l) IPartArgument \<Rightarrow> 'a \<Rightarrow> nat \<Rightarrow> nat" where
  "distinct_scan items comparer i1 j =
     (if j < length items then
        (let i2 = items ! j in
         if (case func comparer of Some c \<Rightarrow> c i1 i2 | None \<Rightarrow> i1 = i2) then j
         else distinct_scan items comparer i1 (j + 1))
      else j)"
  by pat_completeness auto
termination
  by (relation "measure (\<lambda>(items, comparer, i1, j). length items - j)") auto

function distinct_from ::
  "'a list \<Rightarrow> ('a \<Rightarrow> 'a \<Rightarrow> bool, 'l) IPartArgument \<Rightarrow> nat \<Rightarrow> 'a list" where
  "distinct_from items comparer i =
     (if i < length items then
        (let i1 = items ! i; j = distinct_scan items comparer i1 i in
         (if j = length items then [i1] else []) @ distinct_from items comparer (i + 1))
      else [])"
  by pat_completeness auto
termination
  by (relation "measure (\<lambda>(items, comparer, i). length items - i)") auto

definition distinct_op ::
  "'a list \<Rightarrow> ('a \<Rightarrow> 'a \<Rightarrow> bool, 'l) IPartArgument \<Rightarrow> 'a list" where
  "distinct_op items comparer = distinct_from items comparer 0"

text \<open>
  \<^verbatim>\<open>
  function getArray(arg) {
      return (arg.func ? arg.func() : arg.literal) as any[];
  }
  \<close>
\<close>

definition getArray :: "(unit \<Rightarrow> 'b list, 'b list) IPartArgument \<Rightarrow> 'b list js" where
  "getArray arg =
     (case func arg of
        Some f \<Rightarrow> Val (f ())
      | None \<Rightarrow> (case literal arg of Some v \<Rightarrow> Val v | None \<Rightarrow> Undefined))"

text \<open>
  Modelled from the spec: \<^verbatim>\<open>arg[i]\<close>, an indexed read of a part argument itself. The
  declaration of \<^verbatim>\<open>IPartArgument\<close> is not among the sources; by the spec an argument
  holds a literal or a callable and nothing else, so it has no element at any index
  and the read gives \<^verbatim>\<open>undefined\<close>.
\<close>

definition argument_index :: "('f, 'l) IPartArgument \<Rightarrow> nat \<Rightarrow> 'b js" where
  "argument_index arg i = Undefined"

text \<open>
  \<^verbatim>\<open>
  function* zip(items, other, selector) {
      const os = getArray(other);
      var l = Math.min(items.length, os.length);
      for (var i = 0; i < l; i++)
          yield selector.func(items[i], other[i]);
  }
  \<close>
  The selector takes what the two reads give, so its parameters have type \<open>js\<close>.
\<close>

definition zip_op ::
  "'a list \<Rightarrow> (unit \<Rightarrow> 'b list, 'b list) IPartArgument
     \<Rightarrow> ('a js \<Rightarrow> 'b js \<Rightarrow> 'c, 'l) IPartArgument \<Rightarrow> error + 'c list" where
  "zip_op items other selector =
     (case getArray other of
        Val os \<Rightarrow>
          (let l = min (length items) (length os) in
           if l = 0 then Inr []
           else (case func selector of
                   None \<Rightarrow> Inl TypeError
                 | Some f \<Rightarrow>
                     Inr (map (\<lambda>i. f (index_read items (int i)) (argument_index other i))
                            [0..<l])))
      | Undefined \<Rightarrow> Inl TypeError
      | Null \<Rightarrow> Inl TypeError)"

subsection \<open>Take, over a producer that is pulled item by item\<close>

text \<open>
  \<^verbatim>\<open>
  function* take(items, count) {
      let i = 0;
      for (let item of items) {
          if (++i <= count.literal)
              yield item;
          else break;
      }
  }
  \<close>
  The \<^verbatim>\<open>for ... of\<close> loop pulls one item of \<^verbatim>\<open>items\<close> per round. The upstream is a
  producer \<open>src\<close>: \<open>src k\<close> is what the pull number \<open>k\<close> (from \<open>0\<close>) delivers, \<open>None\<close>
  when the upstream is exhausted; an unbounded producer never gives \<open>None\<close>. The loop
  state is \<open>i\<close>, the items yielded so far and the number of items pulled so far; the
  result is the items yielded and the items pulled. A count without a literal is
  \<^verbatim>\<open>undefined\<close>, for which the comparison is false.
\<close>

function take_loop ::
  "(nat \<Rightarrow> 'a option) \<Rightarrow> ('f, int) IPartArgument \<Rightarrow> int \<Rightarrow> 'a list \<Rightarrow> nat
     \<Rightarrow> 'a list \<times> nat" where
  "take_loop src count i yielded pulled =
     (case src pulled of
        None \<Rightarrow> (yielded, pulled)
      | Some item \<Rightarrow>
          if (case literal count of None \<Rightarrow> False | Some n \<Rightarrow> i + 1 \<le> n)
          then take_loop src count (i + 1) (yielded @ [item]) (pulled + 1)
          else (yielded, pulled + 1))"
  by pat_completeness auto
termination
  by (relation "measure (\<lambda>(src, count, i, yielded, pulled).
        case literal count of None \<Rightarrow> 0 | Some n \<Rightarrow> nat (n - i))")
     (auto split: option.splits)

definition take_op :: "(nat \<Rightarrow> 'a option) \<Rightarrow> ('f, int) IPartArgument \<Rightarrow> 'a list \<times> nat" where
  "take_op src count = take_loop src count 0 [] 0"

text \<open>An array as a producer.\<close>

definition array_producer :: "'a list \<Rightarrow> nat \<Rightarrow> 'a option" where
  "array_producer items k = (if k < length items then Some (items ! k) else None)"

subsection \<open>The executor\<close>

text \<open>
  \<^verbatim>\<open>
  const funcs = { where, ofType, cast, select, selectMany, joinWith, groupJoin, take,
      takeWhile, skip, skipWhile, groupBy, distinct, concatWith, zip, union, intersect,
      except, defaultIfEmpty, reverse, first, firstOrDefault, last, lastOrDefault,
      single, singleOrDefault, elementAt, elementAtOrDefault, contains, sequenceEqual,
      any, all, count, min, max, sum, average, aggregate }
  \<close>
  The table has an entry for exactly these kinds. The value the executor threads
  through the parts is the source array or whatever an operator returned (a lazy
  sequence, a scalar, an element): \<open>Val (Inl xs)\<close> is an array, \<open>Val (Inr r)\<close> any
  other result. The properties of the executor proved below do not depend on what the
  entries compute, so the implementations are a parameter \<open>impl\<close> of the table.
\<close>

type_synonym ('a, 'r) running = "('a list + 'r) js"

type_synonym ('a, 'r, 'f, 'l) operator =
  "('a, 'r) running \<Rightarrow> ('f, 'l) IPartArgument list \<Rightarrow> error + ('a, 'r) running"

definition funcs_keys :: "QueryFunc list" where
  "funcs_keys =
     [QueryFunc_where, QueryFunc_ofType, QueryFunc_cast, QueryFunc_select,
      QueryFunc_selectMany, QueryFunc_joinWith, QueryFunc_groupJoin, QueryFunc_take,
      QueryFunc_takeWhile, QueryFunc_skip, QueryFunc_skipWhile, QueryFunc_groupBy,
      QueryFunc_distinct, QueryFunc_concatWith, QueryFunc_zip, QueryFunc_union,
      QueryFunc_intersect, QueryFunc_except, QueryFunc_defaultIfEmpty,
      QueryFunc_reverse, QueryFunc_first, QueryFunc_firstOrDefault, QueryFunc_last,
      QueryFunc_lastOrDefault, QueryFunc_single, QueryFunc_singleOrDefault,
      QueryFunc_elementAt, QueryFunc_elementAtOrDefault, QueryFunc_contains,
      QueryFunc_sequenceEqual, QueryFunc_any, QueryFunc_all, QueryFunc_count,
      QueryFunc_min, QueryFunc_max, QueryFunc_sum, QueryFunc_average,
      QueryFunc_aggregate]"

definition funcs :: "(QueryFunc \<Rightarrow> 'op) \<Rightarrow> QueryFunc \<Rightarrow> 'op option" where
  "funcs impl t = (if indexOf funcs_keys t \<noteq> -1 then Some (impl t) else None)"

text \<open>
  \<^verbatim>\<open>
  function handlePart(items, part) {
      const f = funcs[part.type];
      if (!f) throw new Error(`Unknown query part type ${part.type}.`);
      return f.call(null, items, ...part.args);
  }
  \<close>
\<close>

definition handlePart ::
  "(QueryFunc \<Rightarrow> ('a, 'r, 'f, 'l) operator) \<Rightarrow> ('a, 'r) running \<Rightarrow> ('f, 'l) IQueryPart
     \<Rightarrow> error + ('a, 'r) running" where
  "handlePart impl items part =
     (case funcs impl (type part) of
        None \<Rightarrow> Inl (UnknownOperator (type part))
      | Some f \<Rightarrow> f items (args part))"

text \<open>
  \<^verbatim>\<open>
  function check(items) {
      if (!items) throw new TypeError('Cannot query null array.');
  }
  \<close>
\<close>

definition check :: "'x js \<Rightarrow> error + unit" where
  "check items =
     (case items of Val xs \<Rightarrow> Inr () | Undefined \<Rightarrow> Inl InvalidSource
      | Null \<Rightarrow> Inl InvalidSource)"

text \<open>
  \<^verbatim>\<open>
  export function execute(items, parts) {
      if (!parts || !parts.length) return items;
      check(items);
      let value = items;
      let orderParts = [];
      for (let p of parts) {
          if (~thenFuncs.indexOf(p.type)) {
              orderParts.push(p);
          }
          else {
              if (orderParts.length) {
                  value = orderBy(items, orderParts);
                  orderParts = [];
              }
              value = handlePart(value, p);
          }
      }
      return value;
  }
  \<close>
  \<open>execute_loop\<close> is the \<^verbatim>\<open>for\<close> loop, with \<^verbatim>\<open>value\<close> and \<^verbatim>\<open>orderParts\<close> as its state;
  \<^verbatim>\<open>~n\<close> is truthy unless \<open>n = -1\<close>.
\<close>

fun execute_loop ::
  "(QueryFunc \<Rightarrow> ('a, 'r, 'a \<Rightarrow> 'k::linorder, 'l) operator) \<Rightarrow> 'a list \<Rightarrow> ('a, 'r) running
     \<Rightarrow> ('a \<Rightarrow> 'k, 'l) IQueryPart list \<Rightarrow> ('a \<Rightarrow> 'k, 'l) IQueryPart list
     \<Rightarrow> error + ('a, 'r) running" where
  "execute_loop impl items val orderParts [] = Inr val"
| "execute_loop impl items val orderParts (p # parts) =
     (if indexOf thenFuncs (type p) \<noteq> -1
      then execute_loop impl items val (orderParts @ [p]) parts
      else (case (if length orderParts \<noteq> 0
                  then (case orderBy items orderParts of
                          Inl e \<Rightarrow> Inl e
                        | Inr ordered \<Rightarrow> Inr (Val (Inl ordered)))
                  else Inr val) of
              Inl e \<Rightarrow> Inl e
            | Inr val' \<Rightarrow>
                (case handlePart impl val' p of
                   Inl e \<Rightarrow> Inl e
                 | Inr val'' \<Rightarrow> execute_loop impl items val'' [] parts)))"

definition execute ::
  "(QueryFunc \<Rightarrow> ('a, 'r, 'a \<Rightarrow> 'k::linorder, 'l) operator) \<Rightarrow> 'a list js
     \<Rightarrow> ('a \<Rightarrow> 'k, 'l) IQueryPart list js \<Rightarrow> error + ('a, 'r) running" where
  "execute impl items parts =
     (case parts of
        Val (p # ps) \<Rightarrow>
          (case check items of
             Inl e \<Rightarrow> Inl e
           | Inr u \<Rightarrow>
               (case items of
                  Val xs \<Rightarrow> execute_loop impl xs (Val (Inl xs)) [] (p # ps)
                | Undefined \<Rightarrow> Inl InvalidSource
                | Null \<Rightarrow> Inl InvalidSource))
      | Val [] \<Rightarrow> Inr (map_js Inl items)
      | Undefined \<Rightarrow> Inr (map_js Inl items)
      | Null \<Rightarrow> Inr (map_js Inl items))"

subsection \<open>Arrays by reference: values, the heap, the runtime\<close>

text \<open>
  The definitions above take an array as the list of its elements. Whether a pipeline
  leaves its source as it is depends on which array an operator writes into, so from
  here on an array is an object: a cell of a heap, and a value refers to it by its
  address. The heap is the list of its cells; a new array takes the next address.

  A value of the language (\<^verbatim>\<open>any\<close> in the source):
  \<^item> \<open>Undef\<close>, \<open>Nul\<close>: \<^verbatim>\<open>undefined\<close>, \<^verbatim>\<open>null\<close>;
  \<^item> \<open>Boolean b\<close>; \<open>Number n\<close>, a number that is an integer;
  \<^item> \<open>Reference a\<close>: the array (or the \<^verbatim>\<open>Set\<close>) at address \<open>a\<close>;
  \<^item> \<open>Lazy k items\<close>: the generator object that \<^verbatim>\<open>handlePart\<close> got when it called the
    generator function of the part number \<open>k\<close> of the pipeline on \<open>items\<close>. The call of
    a \<^verbatim>\<open>function*\<close> runs none of its body; the body runs when the object is iterated;
  \<^item> \<open>Foreign p\<close>: every other value (a string, an object, a function, an iterable
    of the program that uses the provider, another number). What the language does
    with it is given by the runtime below.
\<close>

type_synonym ref = nat

datatype 'p any =
    Undef | Nul | Boolean bool | Number int | Reference ref | Lazy nat "'p any" | Foreign 'p

text \<open>
  An array: its elements, and the property \<^verbatim>\<open>key\<close> that \<^verbatim>\<open>groupBy\<close> sets on the arrays
  it creates (\<^verbatim>\<open>group['key'] = k\<close>). A \<^verbatim>\<open>Set\<close> is held the same way, as its members in
  the order of insertion.
\<close>

record 'p array =
  elements :: "'p any list"
  key_property :: "'p any option"

type_synonym 'p heap = "'p array list"

text \<open>
  The elements of the array at an address. No code below makes a reference to an
  address outside the heap; for such an address the read gives no elements.
\<close>

definition elements_at :: "'p heap \<Rightarrow> ref \<Rightarrow> 'p any list" where
  "elements_at h a = (if a < length h then elements (h ! a) else [])"

text \<open>\<^verbatim>\<open>xs[i]\<close> on the elements of an array: \<^verbatim>\<open>undefined\<close> outside \<open>0 .. length - 1\<close>.\<close>

definition element :: "'p any list \<Rightarrow> nat \<Rightarrow> 'p any" where
  "element xs i = (if i < length xs then xs ! i else Undef)"

text \<open>
  \<open>unchanged h h'\<close>: every array of \<open>h\<close> is in \<open>h'\<close> at its address, with the same
  elements in the same order (and the same \<^verbatim>\<open>key\<close>); \<open>h'\<close> may hold more arrays.
\<close>

definition unchanged :: "'p heap \<Rightarrow> 'p heap \<Rightarrow> bool" where
  "unchanged h h' \<longleftrightarrow> length h \<le> length h' \<and> take (length h) h' = h"

text \<open>
  A callback (a predicate, a selector, a comparer, the callable of a sequence argument)
  is code of the program that uses the provider. It is pure, as everywhere in this
  development: it reads the heap and its actual parameters and returns a value. It may
  create arrays (\<^verbatim>\<open>x => [x, 2 * x]\<close>): they are appended to the heap, so the first of
  them has the address \<open>length h\<close>. It writes into no array that exists.
\<close>

type_synonym 'p callback = "'p heap \<Rightarrow> 'p any list \<Rightarrow> 'p any \<times> 'p array list"

type_synonym 'p argument = "('p callback, 'p any) IPartArgument"

type_synonym 'p part = "('p callback, 'p any) IQueryPart"

text \<open>
  The operations of the language that the operators apply to values they did not make
  are a parameter, the runtime: each is a function of the heap and the values, without
  any effect. Every property proved below holds for every runtime.
  \<^item> For a foreign value \<open>p\<close>: its truthiness; whether it is a primitive
    (\<^verbatim>\<open>p !== Object(p)\<close>); the items a \<^verbatim>\<open>for ... of\<close> loop over it gets (\<open>None\<close>: it is not
    iterable); its \<^verbatim>\<open>length\<close> (\<open>None\<close>: none that is a natural number); \<^verbatim>\<open>p[i]\<close>; and
    its elements as the receiver of an array method such as \<^verbatim>\<open>p.filter\<close> (\<open>None\<close>: it
    has no such method).
  \<^item> \<open>js_property h v ix\<close>: \<^verbatim>\<open>v[ix]\<close> for an \<open>ix\<close> that is not a natural number.
  \<^item> \<open>js_strict_eq\<close>, \<open>js_loose_eq\<close>: the operators \<^verbatim>\<open>===\<close> and \<^verbatim>\<open>==\<close>;
    \<open>js_same_value_zero\<close>: the equality a \<^verbatim>\<open>Set\<close> uses; \<open>js_deepEqual\<close>: the function
    of the package \<^verbatim>\<open>deep-equal\<close>; \<open>js_gt\<close>, \<open>js_lt\<close>, \<open>js_le\<close>: the comparisons
    greater than, less than, and less than or equal.
  \<^item> \<open>js_add\<close>, \<open>js_divide\<close>: the operators \<^verbatim>\<open>+\<close> and \<^verbatim>\<open>/\<close>; \<open>js_Math_min\<close>,
    \<open>js_Math_max\<close>: \<^verbatim>\<open>Math.min\<close> and \<^verbatim>\<open>Math.max\<close> of one argument.
  \<^item> \<open>js_call h c v\<close>: the call \<^verbatim>\<open>c(v)\<close> of a literal (of a constructor such as
    \<^verbatim>\<open>Number\<close>); \<open>js_instanceof h v c\<close>: \<^verbatim>\<open>v instanceof c\<close>; both raise when \<open>c\<close> is not
    callable. \<open>js_constructor_not_Object h v\<close>: \<^verbatim>\<open>v.constructor !== Object\<close>.
\<close>

record 'p runtime =
  truthy_foreign :: "'p \<Rightarrow> bool"
  primitive_foreign :: "'p \<Rightarrow> bool"
  items_foreign :: "'p \<Rightarrow> 'p any list option"
  length_foreign :: "'p \<Rightarrow> nat option"
  index_foreign :: "'p \<Rightarrow> nat \<Rightarrow> 'p any"
  elements_foreign :: "'p \<Rightarrow> 'p any list option"
  js_property :: "'p heap \<Rightarrow> 'p any \<Rightarrow> 'p any \<Rightarrow> 'p any"
  js_strict_eq :: "'p heap \<Rightarrow> 'p any \<Rightarrow> 'p any \<Rightarrow> bool"
  js_loose_eq :: "'p heap \<Rightarrow> 'p any \<Rightarrow> 'p any \<Rightarrow> bool"
  js_same_value_zero :: "'p heap \<Rightarrow> 'p any \<Rightarrow> 'p any \<Rightarrow> bool"
  js_deepEqual :: "'p heap \<Rightarrow> 'p any \<Rightarrow> 'p any \<Rightarrow> bool"
  js_gt :: "'p heap \<Rightarrow> 'p any \<Rightarrow> 'p any \<Rightarrow> bool"
  js_lt :: "'p heap \<Rightarrow> 'p any \<Rightarrow> 'p any \<Rightarrow> bool"
  js_le :: "'p heap \<Rightarrow> 'p any \<Rightarrow> 'p any \<Rightarrow> bool"
  js_add :: "'p heap \<Rightarrow> 'p any \<Rightarrow> 'p any \<Rightarrow> 'p any"
  js_divide :: "'p heap \<Rightarrow> 'p any \<Rightarrow> 'p any \<Rightarrow> 'p any"
  js_Math_min :: "'p heap \<Rightarrow> 'p any \<Rightarrow> 'p any"
  js_Math_max :: "'p heap \<Rightarrow> 'p any \<Rightarrow> 'p any"
  js_call :: "'p heap \<Rightarrow> 'p any \<Rightarrow> 'p any \<Rightarrow> error + 'p any"
  js_instanceof :: "'p heap \<Rightarrow> 'p any \<Rightarrow> 'p any \<Rightarrow> error + bool"
  js_constructor_not_Object :: "'p heap \<Rightarrow> 'p any \<Rightarrow> bool"

text \<open>
  Truthiness (\<^verbatim>\<open>!v\<close>, \<^verbatim>\<open>v || w\<close>, a condition): \<^verbatim>\<open>undefined\<close>, \<^verbatim>\<open>null\<close>, \<^verbatim>\<open>false\<close> and \<open>0\<close>
  are falsy; every object, an empty array too, is truthy.
\<close>

definition truthy :: "'p runtime \<Rightarrow> 'p any \<Rightarrow> bool" where
  "truthy rt v =
     (case v of
        Undef \<Rightarrow> False | Nul \<Rightarrow> False | Boolean b \<Rightarrow> b | Number n \<Rightarrow> n \<noteq> 0
      | Reference a \<Rightarrow> True | Lazy k items \<Rightarrow> True | Foreign p \<Rightarrow> truthy_foreign rt p)"

text \<open>\<^verbatim>\<open>v !== Object(v)\<close>: true of a primitive, false of an object.\<close>

definition primitive :: "'p runtime \<Rightarrow> 'p any \<Rightarrow> bool" where
  "primitive rt v =
     (case v of
        Reference a \<Rightarrow> False | Lazy k items \<Rightarrow> False | Foreign p \<Rightarrow> primitive_foreign rt p
      | _ \<Rightarrow> True)"

subsection \<open>Running code on the heap\<close>

text \<open>
  A piece of code runs on a heap. It gives the items it yields (a generator body; other
  code yields none), the value it returns or the error it throws, and the heap it
  leaves. \<open>andThen\<close> is the sequence of two statements: when the first throws, the
  second does not run.
\<close>

type_synonym ('p, 'x) run = "'p heap \<Rightarrow> ('p any list \<times> (error + 'x)) \<times> 'p heap"

definition ret :: "'x \<Rightarrow> ('p, 'x) run" where
  "ret x = (\<lambda>h. (([], Inr x), h))"

definition throw :: "error \<Rightarrow> ('p, 'x) run" where
  "throw e = (\<lambda>h. (([], Inl e), h))"

definition andThen :: "('p, 'x) run \<Rightarrow> ('x \<Rightarrow> ('p, 'y) run) \<Rightarrow> ('p, 'y) run" where
  "andThen m f =
     (\<lambda>h. case m h of
        ((ys, Inl e), h') \<Rightarrow> ((ys, Inl e), h')
      | ((ys, Inr x), h') \<Rightarrow> (case f x h' of ((zs, r), h'') \<Rightarrow> ((ys @ zs, r), h'')))"

text \<open>\<^verbatim>\<open>yield v\<close>.\<close>

definition yield :: "'p any \<Rightarrow> ('p, unit) run" where
  "yield v = (\<lambda>h. (([v], Inr ()), h))"

text \<open>A read of the heap, and a read that can throw.\<close>

definition reading :: "('p heap \<Rightarrow> 'x) \<Rightarrow> ('p, 'x) run" where
  "reading f = (\<lambda>h. (([], Inr (f h)), h))"

definition trying :: "('p heap \<Rightarrow> error + 'x) \<Rightarrow> ('p, 'x) run" where
  "trying f = (\<lambda>h. (([], f h), h))"

text \<open>
  The writes. \<open>new_array xs\<close> is an array literal, or any builtin that makes an array:
  a new cell at the next address. \<open>push a v\<close> is \<^verbatim>\<open>a.push(v)\<close>, \<open>set_key a k\<close> is
  \<^verbatim>\<open>a['key'] = k\<close>, \<open>set_elements a xs\<close> replaces the elements of the array at \<open>a\<close>
  (what \<^verbatim>\<open>a.sort(...)\<close> does, in place). These three write into the cell at \<open>a\<close>,
  whichever array that is.
\<close>

definition new_array :: "'p any list \<Rightarrow> ('p, ref) run" where
  "new_array xs = (\<lambda>h. (([], Inr (length h)), h @ [\<lparr>elements = xs, key_property = None\<rparr>]))"

definition push :: "ref \<Rightarrow> 'p any \<Rightarrow> ('p, unit) run" where
  "push a v = (\<lambda>h. (([], Inr ()), h[a := (h ! a)\<lparr>elements := elements (h ! a) @ [v]\<rparr>]))"

definition set_key :: "ref \<Rightarrow> 'p any \<Rightarrow> ('p, unit) run" where
  "set_key a k = (\<lambda>h. (([], Inr ()), h[a := (h ! a)\<lparr>key_property := Some k\<rparr>]))"

definition set_elements :: "ref \<Rightarrow> 'p any list \<Rightarrow> ('p, unit) run" where
  "set_elements a xs = (\<lambda>h. (([], Inr ()), h[a := (h ! a)\<lparr>elements := xs\<rparr>]))"

text \<open>
  The call \<^verbatim>\<open>f(...)\<close> of what \<^verbatim>\<open>arg.func\<close> gave: a \<open>TypeError\<close> when it is \<^verbatim>\<open>undefined\<close>;
  otherwise the callback's value, with the arrays it created added to the heap.
\<close>

definition call :: "'p callback option \<Rightarrow> 'p any list \<Rightarrow> ('p, 'p any) run" where
  "call f actuals =
     (case f of
        None \<Rightarrow> throw TypeError
      | Some g \<Rightarrow> (\<lambda>h. case g h actuals of (v, created) \<Rightarrow> (([], Inr v), h @ created)))"

text \<open>
  A loop over the elements of a list. The body gets the loop's variables \<open>s\<close> and the
  element; it ends with \<open>Continue s'\<close> (the next round, with the variables updated) or
  with \<open>Stop v\<close> (\<^verbatim>\<open>break\<close>, or \<^verbatim>\<open>return v\<close>), or it throws.
\<close>

datatype ('s, 'r) flow = Continue 's | Stop 'r

fun for_each ::
  "('s \<Rightarrow> 'x \<Rightarrow> ('p, ('s, 'r) flow) run) \<Rightarrow> 's \<Rightarrow> 'x list \<Rightarrow> ('p, ('s, 'r) flow) run" where
  "for_each body s [] = ret (Continue s)"
| "for_each body s (x # xs) =
     andThen (body s x) (\<lambda>r. case r of Continue s' \<Rightarrow> for_each body s' xs | Stop v \<Rightarrow> ret (Stop v))"

text \<open>The end of the body of a loop that has no \<^verbatim>\<open>break\<close> and no \<^verbatim>\<open>return\<close>.\<close>

definition continue :: "'s \<Rightarrow> ('p, ('s, unit) flow) run" where
  "continue s = ret (Continue s)"

text \<open>
  \<^verbatim>\<open>for (let x of items) body\<close>. What the loop gets from \<open>items\<close> is a \<open>source\<close>: the code
  that runs \<open>items\<close> to its end, with the items it delivers and the error it ends with,
  if any (as in \<open>Generator xs e\<close> above). The loop first runs the source, then the body
  on each item; when the items are used up without a \<open>Stop\<close>, the error of the source
  is thrown. So generators are run eagerly here. The source interleaves one pull of
  \<open>items\<close> with one round of the body; the eager run makes every write and creates
  every array that the interleaved run does (and, where the loop stops early, those of
  the items the loop never pulled), only the addresses of new arrays can differ.
\<close>

type_synonym 'p source = "('p, 'p any list \<times> error option) run"

definition for_of ::
  "'p source \<Rightarrow> ('s \<Rightarrow> 'p any \<Rightarrow> ('p, ('s, 'r) flow) run) \<Rightarrow> 's \<Rightarrow> ('p, ('s, 'r) flow) run" where
  "for_of source body s =
     andThen source (\<lambda>(xs, fin).
     andThen (for_each body s xs) (\<lambda>r.
       case r of
         Stop v \<Rightarrow> ret (Stop v)
       | Continue s' \<Rightarrow> (case fin of None \<Rightarrow> ret (Continue s') | Some e \<Rightarrow> throw e)))"

text \<open>
  The source that a generator body is: running the body to its end delivers the items
  it yields, then the error it throws, if it throws.
\<close>

definition collect :: "('p, 'x) run \<Rightarrow> 'p source" where
  "collect g =
     (\<lambda>h. case g h of
        ((ys, r), h') \<Rightarrow> (([], Inr (ys, case r of Inl e \<Rightarrow> Some e | Inr x \<Rightarrow> None)), h'))"

subsection \<open>Reads and builtins of the language\<close>

text \<open>
  \<^verbatim>\<open>f.call(null, items, ...part.args)\<close> binds the parameters of \<open>f\<close> after \<^verbatim>\<open>items\<close> to the
  elements of \<^verbatim>\<open>part.args\<close>; a parameter without an element is \<^verbatim>\<open>undefined\<close> (\<open>None\<close>).
\<close>

definition param :: "'x list \<Rightarrow> nat \<Rightarrow> 'x option" where
  "param xs k = (if k < length xs then Some (xs ! k) else None)"

text \<open>
  \<^verbatim>\<open>arg.func\<close> and \<^verbatim>\<open>arg.literal\<close>: a \<open>TypeError\<close> when \<^verbatim>\<open>arg\<close> is \<^verbatim>\<open>undefined\<close>; an
  argument without a literal gives \<^verbatim>\<open>undefined\<close>.
\<close>

definition func_of :: "'p argument option \<Rightarrow> ('p, 'p callback option) run" where
  "func_of arg = (case arg of None \<Rightarrow> throw TypeError | Some a \<Rightarrow> ret (func a))"

definition literal_of :: "'p argument option \<Rightarrow> ('p, 'p any) run" where
  "literal_of arg =
     (case arg of
        None \<Rightarrow> throw TypeError
      | Some a \<Rightarrow> ret (case literal a of None \<Rightarrow> Undef | Some v \<Rightarrow> v))"

text \<open>
  \<^verbatim>\<open>v.length\<close>: a \<open>TypeError\<close> on \<^verbatim>\<open>undefined\<close> and \<^verbatim>\<open>null\<close>; the number of elements of an
  array; \<^verbatim>\<open>undefined\<close> (\<open>None\<close>) on a generator object, a boolean and a number.
  \<open>length_value\<close> is the result as a value.
\<close>

definition length_of :: "'p runtime \<Rightarrow> 'p any \<Rightarrow> ('p, nat option) run" where
  "length_of rt v =
     (case v of
        Undef \<Rightarrow> throw TypeError
      | Nul \<Rightarrow> throw TypeError
      | Reference a \<Rightarrow> reading (\<lambda>h. Some (length (elements_at h a)))
      | Foreign p \<Rightarrow> ret (length_foreign rt p)
      | _ \<Rightarrow> ret None)"

definition length_value :: "nat option \<Rightarrow> 'p any" where
  "length_value n = (case n of None \<Rightarrow> Undef | Some k \<Rightarrow> Number (int k))"

text \<open>\<^verbatim>\<open>v[i]\<close> for a loop counter \<open>i\<close>, and \<^verbatim>\<open>v[ix]\<close> for a value \<open>ix\<close>.\<close>

definition read_index :: "'p runtime \<Rightarrow> 'p any \<Rightarrow> nat \<Rightarrow> ('p, 'p any) run" where
  "read_index rt v i =
     (case v of
        Undef \<Rightarrow> throw TypeError
      | Nul \<Rightarrow> throw TypeError
      | Reference a \<Rightarrow> reading (\<lambda>h. element (elements_at h a) i)
      | Foreign p \<Rightarrow> ret (index_foreign rt p i)
      | _ \<Rightarrow> ret Undef)"

definition read_property :: "'p runtime \<Rightarrow> 'p any \<Rightarrow> 'p any \<Rightarrow> ('p, 'p any) run" where
  "read_property rt v ix =
     (case v of
        Undef \<Rightarrow> throw TypeError
      | Nul \<Rightarrow> throw TypeError
      | _ \<Rightarrow> (case ix of
                Number n \<Rightarrow>
                  if 0 \<le> n then read_index rt v (nat n)
                  else reading (\<lambda>h. js_property rt h v ix)
              | _ \<Rightarrow> reading (\<lambda>h. js_property rt h v ix)))"

text \<open>\<^verbatim>\<open>g.key\<close>.\<close>

definition read_key :: "'p runtime \<Rightarrow> 'p any \<Rightarrow> ('p, 'p any) run" where
  "read_key rt g =
     (case g of
        Undef \<Rightarrow> throw TypeError
      | Nul \<Rightarrow> throw TypeError
      | Reference a \<Rightarrow>
          reading (\<lambda>h. if a < length h
                       then (case key_property (h ! a) of None \<Rightarrow> Undef | Some k \<Rightarrow> k)
                       else Undef)
      | _ \<Rightarrow> ret Undef)"

text \<open>
  The source that a value is when it is not a generator object of the pipeline: the
  elements of an array; a \<open>TypeError\<close> for a value that is not iterable. This is the
  iteration of a sequence argument and of what a selector returned. A generator object
  of the pipeline does not get there: only the executor's \<^verbatim>\<open>value\<close> and the parameter
  \<^verbatim>\<open>items\<close> of an operator hold one, no literal and no callback does.
\<close>

definition iterate_value :: "'p runtime \<Rightarrow> 'p any \<Rightarrow> 'p source" where
  "iterate_value rt v =
     (case v of
        Reference a \<Rightarrow> reading (\<lambda>h. (elements_at h a, None))
      | Foreign p \<Rightarrow>
          (case items_foreign rt p of None \<Rightarrow> throw TypeError | Some xs \<Rightarrow> ret (xs, None))
      | _ \<Rightarrow> throw TypeError)"

text \<open>
  The receiver of an array method (\<^verbatim>\<open>v.slice\<close>, \<^verbatim>\<open>v.filter\<close>, \<^verbatim>\<open>v.some\<close>, ...): the elements
  of an array; a \<open>TypeError\<close> for \<^verbatim>\<open>undefined\<close> and \<^verbatim>\<open>null\<close>, and for a generator object, a
  boolean and a number, which have no such method.
\<close>

definition receiver :: "'p runtime \<Rightarrow> 'p any \<Rightarrow> ('p, 'p any list) run" where
  "receiver rt v =
     (case v of
        Reference a \<Rightarrow> reading (\<lambda>h. elements_at h a)
      | Foreign p \<Rightarrow>
          (case elements_foreign rt p of None \<Rightarrow> throw TypeError | Some xs \<Rightarrow> ret xs)
      | _ \<Rightarrow> throw TypeError)"

text \<open>
  The array methods of the language that the operators call. \<^verbatim>\<open>some\<close>, \<^verbatim>\<open>every\<close>,
  \<^verbatim>\<open>filter\<close> and \<^verbatim>\<open>map\<close> call their function with the element, its index and the array;
  \<^verbatim>\<open>some\<close> and \<^verbatim>\<open>every\<close> stop at the first element that decides; \<^verbatim>\<open>filter\<close> and \<^verbatim>\<open>map\<close>
  return a new array; a function that is \<^verbatim>\<open>undefined\<close> is a \<open>TypeError\<close>, on an empty
  array too. \<^verbatim>\<open>reduce\<close> is called with an initial value; \<^verbatim>\<open>find\<close> returns the first
  element for which the predicate holds, or \<^verbatim>\<open>undefined\<close>.
\<close>

definition is_function :: "'p callback option \<Rightarrow> ('p, unit) run" where
  "is_function f = (case f of None \<Rightarrow> throw TypeError | Some g \<Rightarrow> ret ())"

definition Array_some ::
  "'p runtime \<Rightarrow> 'p callback option \<Rightarrow> 'p any \<Rightarrow> 'p any list \<Rightarrow> ('p, bool) run" where
  "Array_some rt f arr xs =
     andThen (is_function f) (\<lambda>_.
     andThen (for_each (\<lambda>i x.
         andThen (call f [x, Number (int i), arr]) (\<lambda>r.
         if truthy rt r then ret (Stop True) else ret (Continue (Suc i)))) 0 xs) (\<lambda>r.
     ret (case r of Stop b \<Rightarrow> b | Continue i \<Rightarrow> False)))"

definition Array_every ::
  "'p runtime \<Rightarrow> 'p callback option \<Rightarrow> 'p any \<Rightarrow> 'p any list \<Rightarrow> ('p, bool) run" where
  "Array_every rt f arr xs =
     andThen (is_function f) (\<lambda>_.
     andThen (for_each (\<lambda>i x.
         andThen (call f [x, Number (int i), arr]) (\<lambda>r.
         if truthy rt r then ret (Continue (Suc i)) else ret (Stop False))) 0 xs) (\<lambda>r.
     ret (case r of Stop b \<Rightarrow> b | Continue i \<Rightarrow> True)))"

definition Array_filter ::
  "'p runtime \<Rightarrow> ('p any \<Rightarrow> nat \<Rightarrow> ('p, 'p any) run) \<Rightarrow> 'p any list \<Rightarrow> ('p, ref) run" where
  "Array_filter rt callbackfn xs =
     andThen (for_each (\<lambda>(i, kept) x.
         andThen (callbackfn x i) (\<lambda>r.
         continue (Suc i, if truthy rt r then kept @ [x] else kept))) (0, []) xs) (\<lambda>r.
     new_array (case r of Continue (i, kept) \<Rightarrow> kept | Stop u \<Rightarrow> []))"

definition Array_map ::
  "('p any \<Rightarrow> nat \<Rightarrow> ('p, 'p any) run) \<Rightarrow> 'p any list \<Rightarrow> ('p, ref) run" where
  "Array_map callbackfn xs =
     andThen (for_each (\<lambda>(i, mapped) x.
         andThen (callbackfn x i) (\<lambda>r.
         continue (Suc i, mapped @ [r]))) (0, []) xs) (\<lambda>r.
     new_array (case r of Continue (i, mapped) \<Rightarrow> mapped | Stop u \<Rightarrow> []))"

definition Array_reduce ::
  "('p any \<Rightarrow> 'p any \<Rightarrow> ('p, 'p any) run) \<Rightarrow> 'p any \<Rightarrow> 'p any list \<Rightarrow> ('p, 'p any) run" where
  "Array_reduce callbackfn initialValue xs =
     andThen (for_each (\<lambda>p c. andThen (callbackfn p c) continue) initialValue xs) (\<lambda>r.
     ret (case r of Continue p \<Rightarrow> p | Stop u \<Rightarrow> Undef))"

definition Array_find ::
  "'p runtime \<Rightarrow> ('p any \<Rightarrow> ('p, bool) run) \<Rightarrow> 'p any list \<Rightarrow> ('p, 'p any) run" where
  "Array_find rt predicate xs =
     andThen (for_each (\<lambda>u x.
         andThen (predicate x) (\<lambda>b.
         if b then ret (Stop x) else ret (Continue ()))) () xs) (\<lambda>r.
     ret (case r of Stop x \<Rightarrow> x | Continue u \<Rightarrow> Undef))"

text \<open>
  \<^verbatim>\<open>Set\<close>: \<^verbatim>\<open>s.has(v)\<close>, \<^verbatim>\<open>s.add(v)\<close> (a member is not added twice), and \<^verbatim>\<open>new Set()\<close> or
  \<^verbatim>\<open>new Set(iterable)\<close>, which adds the items of the iterable; \<^verbatim>\<open>undefined\<close> and \<^verbatim>\<open>null\<close>
  give the empty set, another value that is not iterable a \<open>TypeError\<close>.
\<close>

definition Set_has :: "'p runtime \<Rightarrow> ref \<Rightarrow> 'p any \<Rightarrow> ('p, bool) run" where
  "Set_has rt s v = reading (\<lambda>h. list_ex (\<lambda>m. js_same_value_zero rt h m v) (elements_at h s))"

definition Set_add :: "'p runtime \<Rightarrow> ref \<Rightarrow> 'p any \<Rightarrow> ('p, unit) run" where
  "Set_add rt s v = andThen (Set_has rt s v) (\<lambda>present. if present then ret () else push s v)"

definition new_Set :: "'p runtime \<Rightarrow> 'p any option \<Rightarrow> ('p, ref) run" where
  "new_Set rt iterable =
     andThen (new_array []) (\<lambda>s.
     andThen (case iterable of
                None \<Rightarrow> ret ()
              | Some Undef \<Rightarrow> ret ()
              | Some Nul \<Rightarrow> ret ()
              | Some v \<Rightarrow>
                  andThen (for_of (iterate_value rt v) (\<lambda>u x.
                      andThen (Set_add rt s x) (\<lambda>_. continue ())) ()) (\<lambda>_. ret ())) (\<lambda>_.
     ret s))"

subsection \<open>The operators on the heap\<close>

text \<open>
  Every function of the table \<^verbatim>\<open>funcs\<close>, statement by statement. An operator gets the
  parameter \<^verbatim>\<open>items\<close> twice: as the source that a \<^verbatim>\<open>for ... of\<close> loop over it runs, and
  as the value, for the reads \<^verbatim>\<open>items.length\<close>, \<^verbatim>\<open>items[i]\<close> and the array methods. The
  actual parameters \<open>actuals\<close> are \<^verbatim>\<open>part.args\<close>. The body of a generator function
  returns \<^verbatim>\<open>undefined\<close> when it does not say what it returns.
\<close>

type_synonym 'p body = "'p source \<Rightarrow> 'p any \<Rightarrow> 'p argument list \<Rightarrow> ('p, 'p any) run"

text \<open>
  \<^verbatim>\<open>
  function getArray(arg) {
      return (arg.func ? arg.func() : arg.literal) as any[];
  }
  \<close>
\<close>

definition getArray_h :: "'p argument option \<Rightarrow> ('p, 'p any) run" where
  "getArray_h arg =
     andThen (func_of arg) (\<lambda>f.
     case f of Some g \<Rightarrow> call f [] | None \<Rightarrow> literal_of arg)"

text \<open>
  \<^verbatim>\<open>
  function* where(items, predicate) {
      for (let i of items) {
          if (predicate.func(i)) yield i;
      }
  }
  \<close>
\<close>

definition where_h :: "'p runtime \<Rightarrow> 'p body" where
  "where_h rt source items actuals =
     (let predicate = param actuals 0 in
      andThen (for_of source (\<lambda>u i.
          andThen (func_of predicate) (\<lambda>f.
          andThen (call f [i]) (\<lambda>r.
          andThen (if truthy rt r then yield i else ret ()) (\<lambda>_.
          continue ())))) ()) (\<lambda>_.
      ret Undef))"

text \<open>
  \<^verbatim>\<open>
  function* ofType(items, ctor) {
      for (let i of items) {
          if (i !== Object(i)) {
              if (ctor.literal(i) === i)
                  yield i;
          } else if (i instanceof ctor.literal)
              yield i;
      }
  }
  \<close>
\<close>

definition ofType_h :: "'p runtime \<Rightarrow> 'p body" where
  "ofType_h rt source items actuals =
     (let ctor = param actuals 0 in
      andThen (for_of source (\<lambda>u i.
          andThen (literal_of ctor) (\<lambda>c.
          andThen (if primitive rt i
                   then andThen (trying (\<lambda>h. js_call rt h c i)) (\<lambda>v.
                        andThen (reading (\<lambda>h. js_strict_eq rt h v i)) (\<lambda>same.
                        if same then yield i else ret ()))
                   else andThen (trying (\<lambda>h. js_instanceof rt h i c)) (\<lambda>inst.
                        if inst then yield i else ret ())) (\<lambda>_.
          continue ()))) ()) (\<lambda>_.
      ret Undef))"

text \<open>
  \<^verbatim>\<open>
  function* cast(items, ctor) {
      for (let i of items) {
          if (i !== Object(i)) {
              const v = ctor.literal(i);
              if (v === NaN || v === null)
                  throw new Error(`Unable to cast ${i}`);
              yield v;
          } else {
              if (i.constructor !== Object && !(i instanceof ctor.literal))
                  throw new Error(`Unable to cast ${i}`);
              yield i;
          }
      }
  }
  \<close>
  \<^verbatim>\<open>v === NaN\<close> is false of every value.
\<close>

definition cast_h :: "'p runtime \<Rightarrow> 'p body" where
  "cast_h rt source items actuals =
     (let ctor = param actuals 0 in
      andThen (for_of source (\<lambda>u i.
          andThen (if primitive rt i
                   then andThen (literal_of ctor) (\<lambda>c.
                        andThen (trying (\<lambda>h. js_call rt h c i)) (\<lambda>v.
                        if v = Nul then throw InvalidCast else yield v))
                   else andThen (reading (\<lambda>h. js_constructor_not_Object rt h i)) (\<lambda>other.
                        andThen (if other
                                 then andThen (literal_of ctor) (\<lambda>c.
                                      andThen (trying (\<lambda>h. js_instanceof rt h i c)) (\<lambda>inst.
                                      if inst then ret () else throw InvalidCast))
                                 else ret ()) (\<lambda>_.
                        yield i))) (\<lambda>_.
          continue ())) ()) (\<lambda>_.
      ret Undef))"

text \<open>
  \<^verbatim>\<open>
  function* select(items, selector) {
      for (let i of items)
          yield selector.func(i);
  }
  \<close>
\<close>

definition select_h :: "'p runtime \<Rightarrow> 'p body" where
  "select_h rt source items actuals =
     (let selector = param actuals 0 in
      andThen (for_of source (\<lambda>u i.
          andThen (func_of selector) (\<lambda>f.
          andThen (call f [i]) (\<lambda>v.
          andThen (yield v) (\<lambda>_.
          continue ())))) ()) (\<lambda>_.
      ret Undef))"

text \<open>
  \<^verbatim>\<open>
  function* selectMany(items, selector) {
      for (let i of items) {
          for (let ii of selector.func(i))
              yield ii;
      }
  }
  \<close>
\<close>

definition selectMany_h :: "'p runtime \<Rightarrow> 'p body" where
  "selectMany_h rt source items actuals =
     (let selector = param actuals 0 in
      andThen (for_of source (\<lambda>u i.
          andThen (func_of selector) (\<lambda>f.
          andThen (call f [i]) (\<lambda>inner.
          andThen (for_of (iterate_value rt inner) (\<lambda>u ii.
              andThen (yield ii) (\<lambda>_. continue ())) ()) (\<lambda>_.
          continue ())))) ()) (\<lambda>_.
      ret Undef))"

text \<open>
  \<^verbatim>\<open>
  function* joinWith(items, other, thisKey, otherKey, selector) {
      const os = getArray(other);
      for (let i of items) {
          var k = thisKey.func(i);
          for (let o of os) {
              if (deepEqual(otherKey.func(o), k))
                  yield selector.func(i, o);
          }
      }
  }
  \<close>
\<close>

definition joinWith_h :: "'p runtime \<Rightarrow> 'p body" where
  "joinWith_h rt source items actuals =
     (let other = param actuals 0; thisKey = param actuals 1; otherKey = param actuals 2;
          selector = param actuals 3 in
      andThen (getArray_h other) (\<lambda>os.
      andThen (for_of source (\<lambda>u i.
          andThen (func_of thisKey) (\<lambda>f.
          andThen (call f [i]) (\<lambda>k.
          andThen (for_of (iterate_value rt os) (\<lambda>u ot.
              andThen (func_of otherKey) (\<lambda>g.
              andThen (call g [ot]) (\<lambda>ko.
              andThen (reading (\<lambda>h. js_deepEqual rt h ko k)) (\<lambda>same.
              andThen (if same
                       then andThen (func_of selector) (\<lambda>sel.
                            andThen (call sel [i, ot]) yield)
                       else ret ()) (\<lambda>_.
              continue ()))))) ()) (\<lambda>_.
          continue ())))) ()) (\<lambda>_.
      ret Undef)))"

text \<open>
  \<^verbatim>\<open>
  function* groupJoin(items, other, thisKey, otherKey, selector) {
      const os = getArray(other);
      for (let i of items) {
          var k = thisKey.func(i);
          yield selector.func(i, os.filter(o => deepEqual(otherKey.func(o), k)));
      }
  }
  \<close>
  \<^verbatim>\<open>os.filter(...)\<close> makes a new array for every item.
\<close>

definition groupJoin_h :: "'p runtime \<Rightarrow> 'p body" where
  "groupJoin_h rt source items actuals =
     (let other = param actuals 0; thisKey = param actuals 1; otherKey = param actuals 2;
          selector = param actuals 3 in
      andThen (getArray_h other) (\<lambda>os.
      andThen (for_of source (\<lambda>u i.
          andThen (func_of thisKey) (\<lambda>f.
          andThen (call f [i]) (\<lambda>k.
          andThen (func_of selector) (\<lambda>sel.
          andThen (receiver rt os) (\<lambda>xs.
          andThen (Array_filter rt (\<lambda>ot n.
              andThen (func_of otherKey) (\<lambda>g.
              andThen (call g [ot]) (\<lambda>ko.
              andThen (reading (\<lambda>h. js_deepEqual rt h ko k)) (\<lambda>same.
              ret (Boolean same))))) xs) (\<lambda>filtered.
          andThen (call sel [i, Reference filtered]) (\<lambda>v.
          andThen (yield v) (\<lambda>_.
          continue ())))))))) ()) (\<lambda>_.
      ret Undef)))"

text \<open>
  \<^verbatim>\<open>
  function* take(items, count) {
      let i = 0;
      for (let item of items) {
          if (++i <= count.literal)
              yield item;
          else break;
      }
  }
  \<close>
\<close>

definition take_h :: "'p runtime \<Rightarrow> 'p body" where
  "take_h rt source items actuals =
     (let count = param actuals 0 in
      andThen (for_of source (\<lambda>i item.
          andThen (literal_of count) (\<lambda>n.
          andThen (reading (\<lambda>h. js_le rt h (Number (i + 1)) n)) (\<lambda>within.
          if within then andThen (yield item) (\<lambda>_. ret (Continue (i + 1)))
          else ret (Stop ())))) 0) (\<lambda>_.
      ret Undef))"

text \<open>
  \<^verbatim>\<open>
  function* takeWhile(items, predicate) {
      for (let i of items) {
          if (predicate.func(i))
              yield i;
          else break;
      }
  }
  \<close>
\<close>

definition takeWhile_h :: "'p runtime \<Rightarrow> 'p body" where
  "takeWhile_h rt source items actuals =
     (let predicate = param actuals 0 in
      andThen (for_of source (\<lambda>u i.
          andThen (func_of predicate) (\<lambda>f.
          andThen (call f [i]) (\<lambda>r.
          if truthy rt r then andThen (yield i) (\<lambda>_. ret (Continue ()))
          else ret (Stop ())))) ()) (\<lambda>_.
      ret Undef))"

text \<open>
  \<^verbatim>\<open>
  function* skip(items, count) {
      let i = 0;
      for (let item of items) {
          if (++i > count.literal)
              yield item;
      }
  }
  \<close>
\<close>

definition skip_h :: "'p runtime \<Rightarrow> 'p body" where
  "skip_h rt source items actuals =
     (let count = param actuals 0 in
      andThen (for_of source (\<lambda>i item.
          andThen (literal_of count) (\<lambda>n.
          andThen (reading (\<lambda>h. js_gt rt h (Number (i + 1)) n)) (\<lambda>beyond.
          andThen (if beyond then yield item else ret ()) (\<lambda>_.
          continue (i + 1))))) 0) (\<lambda>_.
      ret Undef))"

text \<open>
  \<^verbatim>\<open>
  function* skipWhile(items, predicate) {
      for (let i of items) {
          if (predicate.func(i))
              break;
          else yield i;
      }
  }
  \<close>
\<close>

definition skipWhile_h :: "'p runtime \<Rightarrow> 'p body" where
  "skipWhile_h rt source items actuals =
     (let predicate = param actuals 0 in
      andThen (for_of source (\<lambda>u i.
          andThen (func_of predicate) (\<lambda>f.
          andThen (call f [i]) (\<lambda>r.
          if truthy rt r then ret (Stop ())
          else andThen (yield i) (\<lambda>_. ret (Continue ()))))) ()) (\<lambda>_.
      ret Undef))"

text \<open>
  \<^verbatim>\<open>
  function* groupBy(items, keySelector, valueSelector) {
      const groups = [];
      for (let i of items) {
          const k = keySelector.func(i);
          const a = groups.find(g => deepEqual(g.key, k));
          if (!a) {
              const group = [];
              group['key'] = k;
              groups.push(group);
          }
          else {
              a.push(i);
          }
      }
      for (let g of groups)
          yield valueSelector.func(g);
  }
  \<close>
  \<^verbatim>\<open>a.push(i)\<close> writes into whatever array \<^verbatim>\<open>a\<close> is; on a value that is no array it
  is a \<open>TypeError\<close>.
\<close>

definition push_value :: "'p any \<Rightarrow> 'p any \<Rightarrow> ('p, unit) run" where
  "push_value a v = (case a of Reference r \<Rightarrow> push r v | _ \<Rightarrow> throw TypeError)"

definition groupBy_h :: "'p runtime \<Rightarrow> 'p body" where
  "groupBy_h rt source items actuals =
     (let keySelector = param actuals 0; valueSelector = param actuals 1 in
      andThen (new_array []) (\<lambda>groups.
      andThen (for_of source (\<lambda>u i.
          andThen (func_of keySelector) (\<lambda>f.
          andThen (call f [i]) (\<lambda>k.
          andThen (reading (\<lambda>h. elements_at h groups)) (\<lambda>gs.
          andThen (Array_find rt (\<lambda>g.
              andThen (read_key rt g) (\<lambda>kg.
              reading (\<lambda>h. js_deepEqual rt h kg k))) gs) (\<lambda>a.
          andThen (if \<not> truthy rt a
                   then andThen (new_array []) (\<lambda>created.
                        andThen (set_key created k) (\<lambda>_.
                        push groups (Reference created)))
                   else push_value a i) (\<lambda>_.
          continue ())))))) ()) (\<lambda>_.
      andThen (for_of (iterate_value rt (Reference groups)) (\<lambda>u g.
          andThen (func_of valueSelector) (\<lambda>f.
          andThen (call f [g]) (\<lambda>v.
          andThen (yield v) (\<lambda>_.
          continue ())))) ()) (\<lambda>_.
      ret Undef))))"

text \<open>
  \<^verbatim>\<open>
  function* distinct(items, comparer) {
      const r = [];
      for (let i = 0; i < items.length; i++) {
          const i1 = items[i];
          let j = i
          for (; j < items.length; j++) {
              const i2 = items[j];
              if (comparer.func ? comparer.func(i1, i2) : (i1 == i2)) break;
          }
          if (j === items.length)
              yield i1;
      }
      return r;
  }
  \<close>
  The loops run over the indices below \<^verbatim>\<open>items.length\<close>, none when it is \<^verbatim>\<open>undefined\<close>;
  \<^verbatim>\<open>j === items.length\<close> holds when the inner loop ended without \<^verbatim>\<open>break\<close>.
\<close>

definition distinct_h :: "'p runtime \<Rightarrow> 'p body" where
  "distinct_h rt source items actuals =
     (let comparer = param actuals 0 in
      andThen (new_array []) (\<lambda>r.
      andThen (length_of rt items) (\<lambda>len.
      andThen (for_each (\<lambda>u i.
          andThen (read_index rt items i) (\<lambda>i1.
          andThen (for_each (\<lambda>u j.
              andThen (read_index rt items j) (\<lambda>i2.
              andThen (func_of comparer) (\<lambda>f.
              andThen (case f of
                         Some g \<Rightarrow> andThen (call f [i1, i2]) (\<lambda>v. ret (truthy rt v))
                       | None \<Rightarrow> reading (\<lambda>h. js_loose_eq rt h i1 i2)) (\<lambda>equal.
              if equal then ret (Stop ()) else ret (Continue ()))))) ()
                [i ..< (case len of None \<Rightarrow> 0 | Some n \<Rightarrow> n)]) (\<lambda>inner.
          andThen (case inner of Continue u \<Rightarrow> yield i1 | Stop u \<Rightarrow> ret ()) (\<lambda>_.
          continue ())))) ()
            [0 ..< (case len of None \<Rightarrow> 0 | Some n \<Rightarrow> n)]) (\<lambda>_.
      ret (Reference r)))))"

text \<open>
  \<^verbatim>\<open>
  function* concatWith(items, other) {
      const os = getArray(other);
      for (let i of items)
          yield i;
      for (let o of os)
          yield o;
  }
  \<close>
\<close>

definition concatWith_h :: "'p runtime \<Rightarrow> 'p body" where
  "concatWith_h rt source items actuals =
     (let other = param actuals 0 in
      andThen (getArray_h other) (\<lambda>os.
      andThen (for_of source (\<lambda>u i. andThen (yield i) (\<lambda>_. continue ())) ()) (\<lambda>_.
      andThen (for_of (iterate_value rt os) (\<lambda>u ot.
          andThen (yield ot) (\<lambda>_. continue ())) ()) (\<lambda>_.
      ret Undef))))"

text \<open>
  \<^verbatim>\<open>
  function* zip(items, other, selector) {
      const os = getArray(other);
      var l = Math.min(items.length, os.length);
      for (var i = 0; i < l; i++)
          yield selector.func(items[i], other[i]);
  }
  \<close>
  \<^verbatim>\<open>Math.min\<close> of two lengths is NaN when one of them is \<^verbatim>\<open>undefined\<close>, and the loop
  then has no round. \<^verbatim>\<open>other[i]\<close> reads the part argument itself, which has no element
  (see \<open>argument_index\<close>): it is \<^verbatim>\<open>undefined\<close>.
\<close>

definition Math_min_lengths :: "nat option \<Rightarrow> nat option \<Rightarrow> nat" where
  "Math_min_lengths m n =
     (case m of None \<Rightarrow> 0 | Some a \<Rightarrow> (case n of None \<Rightarrow> 0 | Some b \<Rightarrow> min a b))"

definition zip_h :: "'p runtime \<Rightarrow> 'p body" where
  "zip_h rt source items actuals =
     (let other = param actuals 0; selector = param actuals 1 in
      andThen (getArray_h other) (\<lambda>os.
      andThen (length_of rt items) (\<lambda>m.
      andThen (length_of rt os) (\<lambda>n.
      andThen (for_each (\<lambda>u i.
          andThen (func_of selector) (\<lambda>f.
          andThen (read_index rt items i) (\<lambda>x.
          andThen (call f [x, Undef]) (\<lambda>v.
          andThen (yield v) (\<lambda>_.
          continue ()))))) () [0 ..< Math_min_lengths m n]) (\<lambda>_.
      ret Undef)))))"

text \<open>
  \<^verbatim>\<open>
  function* union(items, other) {
      const s = new Set();
      for (let i of items) {
          if (!s.has(i)) {
              s.add(i);
              yield i;
          }
      }
      const os = getArray(other);
      for (let o of os) {
          if (!s.has(o)) {
              s.add(o);
              yield o;
          }
      }
  }
  \<close>
\<close>

definition union_h :: "'p runtime \<Rightarrow> 'p body" where
  "union_h rt source items actuals =
     (let other = param actuals 0 in
      andThen (new_Set rt None) (\<lambda>s.
      andThen (for_of source (\<lambda>u i.
          andThen (Set_has rt s i) (\<lambda>present.
          andThen (if \<not> present
                   then andThen (Set_add rt s i) (\<lambda>_. yield i)
                   else ret ()) (\<lambda>_.
          continue ()))) ()) (\<lambda>_.
      andThen (getArray_h other) (\<lambda>os.
      andThen (for_of (iterate_value rt os) (\<lambda>u ot.
          andThen (Set_has rt s ot) (\<lambda>present.
          andThen (if \<not> present
                   then andThen (Set_add rt s ot) (\<lambda>_. yield ot)
                   else ret ()) (\<lambda>_.
          continue ()))) ()) (\<lambda>_.
      ret Undef)))))"

text \<open>
  \<^verbatim>\<open>
  function* intersect(items, other) {
      const os = new Set(getArray(other));
      const s = new Set();
      for (let i of items) {
          if (os.has(i) && !s.has(i)) {
              s.add(i);
              yield i;
          }
      }
  }
  \<close>
\<close>

definition intersect_h :: "'p runtime \<Rightarrow> 'p body" where
  "intersect_h rt source items actuals =
     (let other = param actuals 0 in
      andThen (getArray_h other) (\<lambda>arr.
      andThen (new_Set rt (Some arr)) (\<lambda>os.
      andThen (new_Set rt None) (\<lambda>s.
      andThen (for_of source (\<lambda>u i.
          andThen (Set_has rt os i) (\<lambda>there.
          andThen (if there then Set_has rt s i else ret True) (\<lambda>present.
          andThen (if there \<and> \<not> present
                   then andThen (Set_add rt s i) (\<lambda>_. yield i)
                   else ret ()) (\<lambda>_.
          continue ())))) ()) (\<lambda>_.
      ret Undef)))))"

text \<open>
  \<^verbatim>\<open>
  function* except(items, other) {
      const os = new Set(getArray(other));
      const s = new Set();
      for (let i of items) {
          if (!os.has(i) && !s.has(i)) {
              s.add(i);
              yield i;
          }
      }
  }
  \<close>
\<close>

definition except_h :: "'p runtime \<Rightarrow> 'p body" where
  "except_h rt source items actuals =
     (let other = param actuals 0 in
      andThen (getArray_h other) (\<lambda>arr.
      andThen (new_Set rt (Some arr)) (\<lambda>os.
      andThen (new_Set rt None) (\<lambda>s.
      andThen (for_of source (\<lambda>u i.
          andThen (Set_has rt os i) (\<lambda>there.
          andThen (if \<not> there then Set_has rt s i else ret True) (\<lambda>present.
          andThen (if \<not> there \<and> \<not> present
                   then andThen (Set_add rt s i) (\<lambda>_. yield i)
                   else ret ()) (\<lambda>_.
          continue ())))) ()) (\<lambda>_.
      ret Undef)))))"

text \<open>
  \<^verbatim>\<open>
  function defaultIfEmpty(items) {
      return items || [];
  }
  \<close>
\<close>

definition defaultIfEmpty_h :: "'p runtime \<Rightarrow> 'p body" where
  "defaultIfEmpty_h rt source items actuals =
     (if truthy rt items then ret items
      else andThen (new_array []) (\<lambda>r. ret (Reference r)))"

text \<open>
  \<^verbatim>\<open>
  function* reverse(items) {
      for (let i = items.length; i >= 0; i--)
          yield items[i];
  }
  \<close>
  The indices are \<open>length, length - 1, ..., 0\<close>; none when \<^verbatim>\<open>items.length\<close> is
  \<^verbatim>\<open>undefined\<close>.
\<close>

definition reverse_h :: "'p runtime \<Rightarrow> 'p body" where
  "reverse_h rt source items actuals =
     andThen (length_of rt items) (\<lambda>len.
     andThen (for_each (\<lambda>u i.
         andThen (read_index rt items i) (\<lambda>v.
         andThen (yield v) (\<lambda>_.
         continue ()))) () (case len of None \<Rightarrow> [] | Some n \<Rightarrow> rev [0 ..< n + 1])) (\<lambda>_.
     ret Undef))"

text \<open>
  The element accessors, as in the subsection on them: \<^verbatim>\<open>!items.length\<close> is true for
  \<open>0\<close> and for \<^verbatim>\<open>undefined\<close>; \<^verbatim>\<open>!predicate.func || predicate.func(i)\<close> is the test of an
  item; \<^verbatim>\<open>getFirst\<close> and \<^verbatim>\<open>getSingle\<close> iterate \<^verbatim>\<open>items\<close>, \<^verbatim>\<open>getLast\<close> reads it by index
  from \<^verbatim>\<open>items.length - 1\<close> down. \<^verbatim>\<open>getSingle\<close> collects the matches in an array
  \<^verbatim>\<open>matches\<close> of its own:
  \<^verbatim>\<open>
  function getSingle(items, predicate) {
      let matches = [];
      for (let item of items) {
          if (predicate.func && !predicate.func(item)) continue;
          if (matches.length > 0)
              throw new Error('Sequence contains more than one matching element');
          matches.push(item);
      }
      return matches.length ? [true, matches[0]] : [false, null];
  }
  \<close>
\<close>

definition not_length_h :: "nat option \<Rightarrow> bool" where
  "not_length_h len = (case len of None \<Rightarrow> True | Some n \<Rightarrow> n = 0)"

definition test_predicate ::
  "'p runtime \<Rightarrow> 'p argument option \<Rightarrow> 'p any \<Rightarrow> ('p, bool) run" where
  "test_predicate rt predicate i =
     andThen (func_of predicate) (\<lambda>f.
     case f of
       None \<Rightarrow> ret True
     | Some g \<Rightarrow> andThen (call f [i]) (\<lambda>r. ret (truthy rt r)))"

definition getFirst_h ::
  "'p runtime \<Rightarrow> 'p source \<Rightarrow> 'p argument option \<Rightarrow> ('p, bool \<times> 'p any) run" where
  "getFirst_h rt source predicate =
     andThen (for_of source (\<lambda>u i.
         andThen (test_predicate rt predicate i) (\<lambda>ok.
         if ok then ret (Stop i) else ret (Continue ()))) ()) (\<lambda>r.
     ret (case r of Stop i \<Rightarrow> (True, i) | Continue u \<Rightarrow> (False, Nul)))"

definition first_h :: "'p runtime \<Rightarrow> 'p body" where
  "first_h rt source items actuals =
     (let predicate = param actuals 0 in
      andThen (length_of rt items) (\<lambda>len.
      if not_length_h len then throw EmptySequence
      else andThen (getFirst_h rt source predicate) (\<lambda>(found, item).
           if \<not> found then throw NoMatch else ret item)))"

definition firstOrDefault_h :: "'p runtime \<Rightarrow> 'p body" where
  "firstOrDefault_h rt source items actuals =
     (let predicate = param actuals 0 in
      andThen (getFirst_h rt source predicate) (\<lambda>(found, item). ret item))"

definition getLast_h ::
  "'p runtime \<Rightarrow> 'p any \<Rightarrow> 'p argument option \<Rightarrow> ('p, bool \<times> 'p any) run" where
  "getLast_h rt items predicate =
     andThen (length_of rt items) (\<lambda>len.
     andThen (for_each (\<lambda>u i.
         andThen (read_index rt items i) (\<lambda>item.
         andThen (test_predicate rt predicate item) (\<lambda>ok.
         if ok then ret (Stop item) else ret (Continue ())))) ()
           (case len of None \<Rightarrow> [] | Some n \<Rightarrow> rev [0 ..< n])) (\<lambda>r.
     ret (case r of Stop item \<Rightarrow> (True, item) | Continue u \<Rightarrow> (False, Nul))))"

definition last_h :: "'p runtime \<Rightarrow> 'p body" where
  "last_h rt source items actuals =
     (let predicate = param actuals 0 in
      andThen (length_of rt items) (\<lambda>len.
      if not_length_h len then throw EmptySequence
      else andThen (getLast_h rt items predicate) (\<lambda>(found, item).
           if \<not> found then throw NoMatch else ret item)))"

definition lastOrDefault_h :: "'p runtime \<Rightarrow> 'p body" where
  "lastOrDefault_h rt source items actuals =
     (let predicate = param actuals 0 in
      andThen (getLast_h rt items predicate) (\<lambda>(found, item). ret item))"

definition getSingle_h ::
  "'p runtime \<Rightarrow> 'p source \<Rightarrow> 'p argument option \<Rightarrow> ('p, bool \<times> 'p any) run" where
  "getSingle_h rt source predicate =
     andThen (new_array []) (\<lambda>matches.
     andThen (for_of source (\<lambda>u item.
         andThen (test_predicate rt predicate item) (\<lambda>ok.
         if \<not> ok then continue ()
         else andThen (reading (\<lambda>h. length (elements_at h matches))) (\<lambda>n.
              if n > 0 then throw MultipleMatches
              else andThen (push matches item) (\<lambda>_. continue ())))) ()) (\<lambda>_.
     andThen (reading (\<lambda>h. elements_at h matches)) (\<lambda>ms.
     ret (if length ms \<noteq> 0 then (True, element ms 0) else (False, Nul)))))"

definition single_h :: "'p runtime \<Rightarrow> 'p body" where
  "single_h rt source items actuals =
     (let predicate = param actuals 0 in
      andThen (length_of rt items) (\<lambda>len.
      if not_length_h len then throw EmptySequence
      else andThen (getSingle_h rt source predicate) (\<lambda>(found, item).
           if \<not> found then throw NoMatch else ret item)))"

definition singleOrDefault_h :: "'p runtime \<Rightarrow> 'p body" where
  "singleOrDefault_h rt source items actuals =
     (let predicate = param actuals 0 in
      andThen (getSingle_h rt source predicate) (\<lambda>(found, item). ret item))"

text \<open>
  \<^verbatim>\<open>
  function elementAt(items, index) {
      if (index.literal > items.length)
          throw new Error('Index was outside the bounds of the array.');
      return items[index.literal];
  }
  function elementAtOrDefault(items, index) {
      return items[index.literal];
  }
  \<close>
\<close>

definition elementAt_h :: "'p runtime \<Rightarrow> 'p body" where
  "elementAt_h rt source items actuals =
     (let index = param actuals 0 in
      andThen (literal_of index) (\<lambda>n.
      andThen (length_of rt items) (\<lambda>len.
      andThen (reading (\<lambda>h. js_gt rt h n (length_value len))) (\<lambda>beyond.
      if beyond then throw IndexOutOfRange
      else read_property rt items n))))"

definition elementAtOrDefault_h :: "'p runtime \<Rightarrow> 'p body" where
  "elementAtOrDefault_h rt source items actuals =
     (let index = param actuals 0 in
      andThen (literal_of index) (\<lambda>n. read_property rt items n))"

text \<open>
  \<^verbatim>\<open>
  function contains(items, item) {
      return items.indexOf(item) >= 0;
  }
  \<close>
  \<^verbatim>\<open>item\<close> is the part argument, not its literal. \<^verbatim>\<open>indexOf\<close> compares with \<^verbatim>\<open>===\<close>: the
  argument object is equal to no value of an array; a parameter that is \<^verbatim>\<open>undefined\<close>
  is equal to an element that is \<^verbatim>\<open>undefined\<close>.
\<close>

definition contains_h :: "'p runtime \<Rightarrow> 'p body" where
  "contains_h rt source items actuals =
     (let item = param actuals 0 in
      andThen (receiver rt items) (\<lambda>xs.
      ret (Boolean (case item of None \<Rightarrow> list_ex (\<lambda>x. x = Undef) xs | Some arg \<Rightarrow> False))))"

text \<open>
  \<^verbatim>\<open>
  function sequenceEqual(items, other) {
      const o = other.literal;
      if (!o || items.length !== o.length) return false;
      for (let i = 0; i < items.length; i++) {
          if (items[i] != o[i]) return false;
      }
      return true;
  }
  \<close>
\<close>

definition sequenceEqual_h :: "'p runtime \<Rightarrow> 'p body" where
  "sequenceEqual_h rt source items actuals =
     (let other = param actuals 0 in
      andThen (literal_of other) (\<lambda>ot.
      if \<not> truthy rt ot then ret (Boolean False)
      else andThen (length_of rt items) (\<lambda>m.
           andThen (length_of rt ot) (\<lambda>n.
           if m \<noteq> n then ret (Boolean False)
           else andThen (for_each (\<lambda>u i.
                    andThen (read_index rt items i) (\<lambda>x.
                    andThen (read_index rt ot i) (\<lambda>y.
                    andThen (reading (\<lambda>h. js_loose_eq rt h x y)) (\<lambda>same.
                    if \<not> same then ret (Stop ()) else ret (Continue ()))))) ()
                      [0 ..< (case m of None \<Rightarrow> 0 | Some k \<Rightarrow> k)]) (\<lambda>r.
                ret (Boolean (case r of Stop u \<Rightarrow> False | Continue u \<Rightarrow> True)))))))"

text \<open>
  \<^verbatim>\<open>
  function any(items, predicate) {
      return predicate.func ? items.some(predicate.func) : items.length > 0;
  }
  function all(items, predicate) {
      return items.every(predicate.func);
  }
  function count(items, predicate) {
      return predicate.func ? items.filter(predicate.func).length : items.length;
  }
  \<close>
\<close>

definition any_h :: "'p runtime \<Rightarrow> 'p body" where
  "any_h rt source items actuals =
     (let predicate = param actuals 0 in
      andThen (func_of predicate) (\<lambda>f.
      case f of
        Some g \<Rightarrow>
          andThen (receiver rt items) (\<lambda>xs.
          andThen (Array_some rt f items xs) (\<lambda>b. ret (Boolean b)))
      | None \<Rightarrow>
          andThen (length_of rt items) (\<lambda>len.
          ret (Boolean (case len of None \<Rightarrow> False | Some n \<Rightarrow> n > 0)))))"

definition all_h :: "'p runtime \<Rightarrow> 'p body" where
  "all_h rt source items actuals =
     (let predicate = param actuals 0 in
      andThen (receiver rt items) (\<lambda>xs.
      andThen (func_of predicate) (\<lambda>f.
      andThen (Array_every rt f items xs) (\<lambda>b. ret (Boolean b)))))"

definition count_h :: "'p runtime \<Rightarrow> 'p body" where
  "count_h rt source items actuals =
     (let predicate = param actuals 0 in
      andThen (func_of predicate) (\<lambda>f.
      case f of
        Some g \<Rightarrow>
          andThen (receiver rt items) (\<lambda>xs.
          andThen (Array_filter rt (\<lambda>x i. call f [x, Number (int i), items]) xs) (\<lambda>kept.
          andThen (length_of rt (Reference kept)) (\<lambda>len. ret (length_value len))))
      | None \<Rightarrow> andThen (length_of rt items) (\<lambda>len. ret (length_value len))))"

text \<open>
  \<^verbatim>\<open>
  function min(items, selector) {
      return Math.min(selector.func ? items.map(selector.func) : items);
  }
  function max(items, selector) {
      return Math.max(selector.func ? items.map(selector.func) : items);
  }
  \<close>
\<close>

definition mapped_or_items ::
  "'p runtime \<Rightarrow> 'p any \<Rightarrow> 'p argument option \<Rightarrow> ('p, 'p any) run" where
  "mapped_or_items rt items selector =
     andThen (func_of selector) (\<lambda>f.
     case f of
       Some g \<Rightarrow>
         andThen (receiver rt items) (\<lambda>xs.
         andThen (Array_map (\<lambda>x i. call f [x, Number (int i), items]) xs) (\<lambda>mapped.
         ret (Reference mapped)))
     | None \<Rightarrow> ret items)"

definition min_h :: "'p runtime \<Rightarrow> 'p body" where
  "min_h rt source items actuals =
     (let selector = param actuals 0 in
      andThen (mapped_or_items rt items selector) (\<lambda>v.
      reading (\<lambda>h. js_Math_min rt h v)))"

definition max_h :: "'p runtime \<Rightarrow> 'p body" where
  "max_h rt source items actuals =
     (let selector = param actuals 0 in
      andThen (mapped_or_items rt items selector) (\<lambda>v.
      reading (\<lambda>h. js_Math_max rt h v)))"

text \<open>
  \<^verbatim>\<open>
  function sum(items, selector) {
      return items.reduce((p, c) => p + (selector.func ? selector.func(c) : c), 0);
  }
  function average(items, selector) {
      return items.length ? sum(items, selector) / items.length : 0;
  }
  function aggregate(items, func, seed, selector) {
      return items.reduce(
          (p, c) => func.func(p, selector.func ? selector.func(c) : c),
          seed.literal
      );
  }
  \<close>
\<close>

definition selected :: "'p argument option \<Rightarrow> 'p any \<Rightarrow> ('p, 'p any) run" where
  "selected selector c =
     andThen (func_of selector) (\<lambda>f.
     case f of Some g \<Rightarrow> call f [c] | None \<Rightarrow> ret c)"

definition sum_h :: "'p runtime \<Rightarrow> 'p body" where
  "sum_h rt source items actuals =
     (let selector = param actuals 0 in
      andThen (receiver rt items) (\<lambda>xs.
      Array_reduce (\<lambda>p c.
          andThen (selected selector c) (\<lambda>v.
          reading (\<lambda>h. js_add rt h p v))) (Number 0) xs))"

definition average_h :: "'p runtime \<Rightarrow> 'p body" where
  "average_h rt source items actuals =
     andThen (length_of rt items) (\<lambda>len.
     if not_length_h len then ret (Number 0)
     else andThen (sum_h rt source items actuals) (\<lambda>total.
          reading (\<lambda>h. js_divide rt h total (length_value len))))"

definition aggregate_h :: "'p runtime \<Rightarrow> 'p body" where
  "aggregate_h rt source items actuals =
     (let func = param actuals 0; seed = param actuals 1; selector = param actuals 2 in
      andThen (receiver rt items) (\<lambda>xs.
      andThen (literal_of seed) (\<lambda>initialValue.
      Array_reduce (\<lambda>p c.
          andThen (func_of func) (\<lambda>f.
          andThen (selected selector c) (\<lambda>v.
          call f [p, v]))) initialValue xs)))"

subsection \<open>The table, the generators and the executor on the heap\<close>

text \<open>
  An entry of \<^verbatim>\<open>funcs\<close> is a generator function (\<^verbatim>\<open>function*\<close>) or a plain function. The
  table is \<open>funcs (operators rt)\<close>: \<open>funcs\<close> has an entry for the keys of the table
  only, so what \<open>operators\<close> gives for the four ordering kinds is never read.
\<close>

datatype 'p funcs_entry = Generator_function "'p body" | Plain_function "'p body"

definition operators :: "'p runtime \<Rightarrow> QueryFunc \<Rightarrow> 'p funcs_entry" where
  "operators rt t =
     (case t of
        QueryFunc_where \<Rightarrow> Generator_function (where_h rt)
      | QueryFunc_ofType \<Rightarrow> Generator_function (ofType_h rt)
      | QueryFunc_cast \<Rightarrow> Generator_function (cast_h rt)
      | QueryFunc_select \<Rightarrow> Generator_function (select_h rt)
      | QueryFunc_selectMany \<Rightarrow> Generator_function (selectMany_h rt)
      | QueryFunc_joinWith \<Rightarrow> Generator_function (joinWith_h rt)
      | QueryFunc_groupJoin \<Rightarrow> Generator_function (groupJoin_h rt)
      | QueryFunc_take \<Rightarrow> Generator_function (take_h rt)
      | QueryFunc_takeWhile \<Rightarrow> Generator_function (takeWhile_h rt)
      | QueryFunc_skip \<Rightarrow> Generator_function (skip_h rt)
      | QueryFunc_skipWhile \<Rightarrow> Generator_function (skipWhile_h rt)
      | QueryFunc_groupBy \<Rightarrow> Generator_function (groupBy_h rt)
      | QueryFunc_distinct \<Rightarrow> Generator_function (distinct_h rt)
      | QueryFunc_concatWith \<Rightarrow> Generator_function (concatWith_h rt)
      | QueryFunc_zip \<Rightarrow> Generator_function (zip_h rt)
      | QueryFunc_union \<Rightarrow> Generator_function (union_h rt)
      | QueryFunc_intersect \<Rightarrow> Generator_function (intersect_h rt)
      | QueryFunc_except \<Rightarrow> Generator_function (except_h rt)
      | QueryFunc_defaultIfEmpty \<Rightarrow> Plain_function (defaultIfEmpty_h rt)
      | QueryFunc_reverse \<Rightarrow> Generator_function (reverse_h rt)
      | QueryFunc_first \<Rightarrow> Plain_function (first_h rt)
      | QueryFunc_firstOrDefault \<Rightarrow> Plain_function (firstOrDefault_h rt)
      | QueryFunc_last \<Rightarrow> Plain_function (last_h rt)
      | QueryFunc_lastOrDefault \<Rightarrow> Plain_function (lastOrDefault_h rt)
      | QueryFunc_single \<Rightarrow> Plain_function (single_h rt)
      | QueryFunc_singleOrDefault \<Rightarrow> Plain_function (singleOrDefault_h rt)
      | QueryFunc_elementAt \<Rightarrow> Plain_function (elementAt_h rt)
      | QueryFunc_elementAtOrDefault \<Rightarrow> Plain_function (elementAtOrDefault_h rt)
      | QueryFunc_contains \<Rightarrow> Plain_function (contains_h rt)
      | QueryFunc_sequenceEqual \<Rightarrow> Plain_function (sequenceEqual_h rt)
      | QueryFunc_any \<Rightarrow> Plain_function (any_h rt)
      | QueryFunc_all \<Rightarrow> Plain_function (all_h rt)
      | QueryFunc_count \<Rightarrow> Plain_function (count_h rt)
      | QueryFunc_min \<Rightarrow> Plain_function (min_h rt)
      | QueryFunc_max \<Rightarrow> Plain_function (max_h rt)
      | QueryFunc_sum \<Rightarrow> Plain_function (sum_h rt)
      | QueryFunc_average \<Rightarrow> Plain_function (average_h rt)
      | QueryFunc_aggregate \<Rightarrow> Plain_function (aggregate_h rt)
      | _ \<Rightarrow> Plain_function (\<lambda>source items actuals. throw (UnknownOperator t)))"

text \<open>
  The source that a value of the pipeline is. Iterating the generator object
  \<open>Lazy k items\<close> runs the body of the generator function of the part number \<open>k\<close> on
  \<open>items\<close>, which in turn iterates \<open>items\<close>. Every other value is iterated by
  \<open>iterate_value\<close>. (An index \<open>k\<close> outside the pipeline, or of a part whose function is
  no generator function, belongs to no generator object that \<^verbatim>\<open>handlePart\<close> makes.)
\<close>

fun iterate :: "'p runtime \<Rightarrow> 'p part list \<Rightarrow> 'p any \<Rightarrow> 'p source" where
  "iterate rt parts (Lazy k items) =
     (case param parts k of
        None \<Rightarrow> throw TypeError
      | Some part \<Rightarrow>
          (case funcs (operators rt) (type part) of
             Some (Generator_function f) \<Rightarrow>
               collect (f (iterate rt parts items) items (args part))
           | _ \<Rightarrow> throw TypeError))"
| "iterate rt parts v = iterate_value rt v"

text \<open>
  \<^verbatim>\<open>
  function handlePart(items, part) {
      const f = funcs[part.type];
      if (!f) throw new Error(`Unknown query part type ${part.type}.`);
      return f.call(null, items, ...part.args);
  }
  \<close>
  The call of a generator function returns the generator object and runs nothing; the
  call of a plain function runs its body. \<open>k\<close> is the index of the part in the
  pipeline \<open>parts\<close>.
\<close>

definition handlePart_h ::
  "'p runtime \<Rightarrow> 'p part list \<Rightarrow> nat \<Rightarrow> 'p any \<Rightarrow> 'p part \<Rightarrow> ('p, 'p any) run" where
  "handlePart_h rt parts k items part =
     (case funcs (operators rt) (type part) of
        None \<Rightarrow> throw (UnknownOperator (type part))
      | Some (Generator_function f) \<Rightarrow> ret (Lazy k items)
      | Some (Plain_function f) \<Rightarrow> f (iterate rt parts items) items (args part))"

text \<open>
  \<^verbatim>\<open>orderBy\<close> on the heap: \<^verbatim>\<open>items.slice()\<close> makes a new array with the elements of
  \<^verbatim>\<open>items\<close>, \<^verbatim>\<open>sort\<close> orders that array in place, with the comparator of \<open>compare_keys\<close>
  and the sort of \<open>Array_sort\<close>, and returns it.
\<close>

fun compare_keys_h ::
  "'p runtime \<Rightarrow> 'p part list \<Rightarrow> 'p any \<Rightarrow> 'p any \<Rightarrow> ('p, int js) run" where
  "compare_keys_h rt [] i1 i2 = ret Undefined"
| "compare_keys_h rt (s # keySelectors) i1 i2 =
     (let desc = (if indexOf descFuncs (type s) \<noteq> 0 then -1 else 1);
          sel = param (args s) 0 in
      andThen (func_of sel) (\<lambda>f.
      andThen (call f [i1]) (\<lambda>v1.
      andThen (call f [i2]) (\<lambda>v2.
      andThen (reading (\<lambda>h. js_gt rt h v1 v2)) (\<lambda>above.
      if above then ret (Val desc)
      else andThen (reading (\<lambda>h. js_lt rt h v1 v2)) (\<lambda>below.
           if below then ret (Val (-1 * desc))
           else compare_keys_h rt keySelectors i1 i2))))))"

fun sort_insert_h ::
  "('p any \<Rightarrow> 'p any \<Rightarrow> ('p, int js) run) \<Rightarrow> 'p any \<Rightarrow> 'p any list \<Rightarrow> ('p, 'p any list) run" where
  "sort_insert_h comparefn x [] = ret [x]"
| "sort_insert_h comparefn x (y # ys) =
     andThen (comparefn x y) (\<lambda>v.
     if comparator_result v \<le> 0 then ret (x # y # ys)
     else andThen (sort_insert_h comparefn x ys) (\<lambda>zs. ret (y # zs)))"

fun Array_sort_h ::
  "('p any \<Rightarrow> 'p any \<Rightarrow> ('p, int js) run) \<Rightarrow> 'p any list \<Rightarrow> ('p, 'p any list) run" where
  "Array_sort_h comparefn [] = ret []"
| "Array_sort_h comparefn (x # xs) =
     andThen (Array_sort_h comparefn xs) (\<lambda>ys. sort_insert_h comparefn x ys)"

definition slice_h :: "'p runtime \<Rightarrow> 'p any \<Rightarrow> ('p, ref) run" where
  "slice_h rt items = andThen (receiver rt items) new_array"

definition orderBy_h :: "'p runtime \<Rightarrow> 'p any \<Rightarrow> 'p part list \<Rightarrow> ('p, 'p any) run" where
  "orderBy_h rt items keySelectors =
     andThen (slice_h rt items) (\<lambda>copy.
     andThen (reading (\<lambda>h. elements_at h copy)) (\<lambda>xs.
     andThen (Array_sort_h (compare_keys_h rt keySelectors) xs) (\<lambda>ordered.
     andThen (set_elements copy ordered) (\<lambda>_.
     ret (Reference copy)))))"

text \<open>
  \<^verbatim>\<open>execute\<close> on the heap, as \<open>execute_loop\<close> and \<open>execute\<close> above; \<open>k\<close> counts the parts.
  The array \<^verbatim>\<open>orderParts\<close> holds parts and is local to the call.
\<close>

fun execute_loop_h ::
  "'p runtime \<Rightarrow> 'p part list \<Rightarrow> 'p any \<Rightarrow> 'p any \<Rightarrow> 'p part list \<Rightarrow> nat \<Rightarrow> 'p part list
     \<Rightarrow> ('p, 'p any) run" where
  "execute_loop_h rt parts items val orderParts k [] = ret val"
| "execute_loop_h rt parts items val orderParts k (p # rest) =
     (if indexOf thenFuncs (type p) \<noteq> -1
      then execute_loop_h rt parts items val (orderParts @ [p]) (k + 1) rest
      else andThen (if length orderParts \<noteq> 0 then orderBy_h rt items orderParts
                    else ret val) (\<lambda>val'.
           andThen (handlePart_h rt parts k val' p) (\<lambda>val''.
           execute_loop_h rt parts items val'' [] (k + 1) rest)))"

definition check_h :: "'p runtime \<Rightarrow> 'p any \<Rightarrow> ('p, unit) run" where
  "check_h rt items = (if \<not> truthy rt items then throw InvalidSource else ret ())"

definition execute_h :: "'p runtime \<Rightarrow> 'p any \<Rightarrow> 'p part list js \<Rightarrow> ('p, 'p any) run" where
  "execute_h rt items parts =
     (case parts of
        Val (p # ps) \<Rightarrow>
          andThen (check_h rt items) (\<lambda>_.
          execute_loop_h rt (p # ps) items items [] 0 (p # ps))
      | _ \<Rightarrow> ret items)"

subsection \<open>Predicates on runs, and numbers for examples\<close>

text \<open>
  \<open>creates_only m\<close>: on every heap, \<open>m\<close> leaves every array of the heap as it was.
  \<open>safe I m\<close>: \<open>m\<close> keeps the invariant \<open>I\<close> of the heap. \<open>grows I\<close>: the invariant
  survives the creation of arrays. \<open>establishes I m Q\<close>: \<open>m\<close> keeps \<open>I\<close>, and what it
  returns satisfies \<open>Q\<close>. \<open>returns m Q\<close>: what \<open>m\<close> returns satisfies \<open>Q\<close>.
\<close>

definition creates_only :: "('p, 'x) run \<Rightarrow> bool" where
  "creates_only m \<longleftrightarrow> (\<forall>h. unchanged h (snd (m h)))"

definition safe :: "('p heap \<Rightarrow> bool) \<Rightarrow> ('p, 'x) run \<Rightarrow> bool" where
  "safe I m \<longleftrightarrow> (\<forall>h. I h \<longrightarrow> I (snd (m h)))"

definition grows :: "('p heap \<Rightarrow> bool) \<Rightarrow> bool" where
  "grows I \<longleftrightarrow> (\<forall>h created. I h \<longrightarrow> I (h @ created))"

definition establishes :: "('p heap \<Rightarrow> bool) \<Rightarrow> ('p, 'x) run \<Rightarrow> ('x \<Rightarrow> bool) \<Rightarrow> bool" where
  "establishes I m Q \<longleftrightarrow> (\<forall>h. I h \<longrightarrow> I (snd (m h)) \<and> (\<forall>x. snd (fst (m h)) = Inr x \<longrightarrow> Q x))"

definition returns :: "('p, 'x) run \<Rightarrow> ('x \<Rightarrow> bool) \<Rightarrow> bool" where
  "returns m Q \<longleftrightarrow> (\<forall>h. case snd (fst (m h)) of Inr x \<Rightarrow> Q x | Inl e \<Rightarrow> True)"

text \<open>
  The invariant of the first loop of \<^verbatim>\<open>groupBy\<close>, for a heap \<open>h0\<close> at the start and the
  array \<^verbatim>\<open>groups\<close> at the address \<open>groups\<close>: the arrays of \<open>h0\<close> are as they were,
  \<^verbatim>\<open>groups\<close> is not one of them, and each of its elements is a reference to an array
  that was created after it.
\<close>

definition groups_invariant :: "'p heap \<Rightarrow> ref \<Rightarrow> 'p heap \<Rightarrow> bool" where
  "groups_invariant h0 groups h \<longleftrightarrow>
     unchanged h0 h \<and> length h0 \<le> groups \<and> groups < length h
     \<and> (\<forall>v \<in> set (elements (h ! groups)). \<exists>r. v = Reference r \<and> groups < r)"

definition frame_body :: "'p body \<Rightarrow> bool" where
  "frame_body f \<longleftrightarrow>
     (\<forall>source items actuals. creates_only source \<longrightarrow> creates_only (f source items actuals))"

text \<open>
  For examples with numbers: a runtime in which two numbers are compared by their
  order, and are equal for a \<^verbatim>\<open>Set\<close> and for \<^verbatim>\<open>deepEqual\<close> when they are the same
  number, as the language has it; everything else is as in the given runtime.
  \<open>identity\<close> is the callback \<^verbatim>\<open>x => x\<close>; \<open>numbers ns\<close> is the array of the numbers
  \<open>ns\<close>.
\<close>

definition on_numbers :: "'p runtime \<Rightarrow> 'p runtime" where
  "on_numbers rt =
     rt\<lparr>js_gt := (\<lambda>h a b. case (a, b) of (Number m, Number n) \<Rightarrow> m > n | _ \<Rightarrow> js_gt rt h a b),
        js_lt := (\<lambda>h a b. case (a, b) of (Number m, Number n) \<Rightarrow> m < n | _ \<Rightarrow> js_lt rt h a b),
        js_same_value_zero :=
          (\<lambda>h a b. case (a, b) of
                     (Number m, Number n) \<Rightarrow> m = n
                   | _ \<Rightarrow> js_same_value_zero rt h a b),
        js_deepEqual :=
          (\<lambda>h a b. case (a, b) of
                     (Number m, Number n) \<Rightarrow> m = n
                   | _ \<Rightarrow> js_deepEqual rt h a b)\<rparr>"

definition identity :: "'p callback" where
  "identity h actuals = (element actuals 0, [])"

definition numbers :: "int list \<Rightarrow> 'p array" where
  "numbers ns = \<lparr>elements = map Number ns, key_property = None\<rparr>"

section \<open>Properties\<close>

subsection \<open>The element accessors\<close>

lemma getSingle_loop_pending:
  "matches \<noteq> [] \<Longrightarrow>
   getSingle_loop items fin predicate matches =
     (if matching predicate items \<noteq> [] then Inl MultipleMatches
      else (case fin of None \<Rightarrow> Inr matches | Some e \<Rightarrow> Inl e))"
  by (induction items arbitrary: matches) (auto simp: matching_def split: option.splits)

lemma getSingle_loop_start:
  "getSingle_loop items fin predicate [] =
     (if 1 < length (matching predicate items) then Inl MultipleMatches
      else (case fin of None \<Rightarrow> Inr (matching predicate items) | Some e \<Rightarrow> Inl e))"
  by (induction items) (auto simp: matching_def getSingle_loop_pending split: option.splits)

lemma getFirst_loop_matching:
  "getFirst_loop items fin predicate =
     (case matching predicate items of
        [] \<Rightarrow> (case fin of None \<Rightarrow> Inr (False, Null) | Some e \<Rightarrow> Inl e)
      | x # _ \<Rightarrow> Inr (True, Val x))"
  by (induction items) (auto simp: matching_def split: option.splits)

lemma getLast_from_matching:
  "n \<le> length items \<Longrightarrow>
   getLast_from items predicate n =
     (case rev (matching predicate (take n items)) of
        [] \<Rightarrow> (False, Null) | x # _ \<Rightarrow> (True, Val x))"
  by (induction n) (auto simp: matching_def take_Suc_conv_app_nth Let_def split: option.splits)

text \<open>
  C7. On a generator, the sequence that a lazy operator hands on, \<^verbatim>\<open>first\<close>, \<^verbatim>\<open>last\<close> and
  \<^verbatim>\<open>single\<close> fail with \<open>EmptySequence\<close> whatever the generator yields, because a
  generator has no \<^verbatim>\<open>length\<close>: \<^verbatim>\<open>single\<close> on the generator of \<open>1, 2\<close> with
  \<^verbatim>\<open>x => x > 1\<close> fails with \<open>EmptySequence\<close> where \<open>2\<close> is the unique match, with
  \<^verbatim>\<open>x => x > 0\<close> it fails with \<open>EmptySequence\<close> and not with \<open>MultipleMatches\<close>, and
  \<^verbatim>\<open>first\<close> on the generator of \<open>2, 3\<close> fails. \<^verbatim>\<open>lastOrDefault\<close> on a generator returns
  \<^verbatim>\<open>null\<close> whatever it yields. \<^verbatim>\<open>firstOrDefault\<close> and \<^verbatim>\<open>singleOrDefault\<close> consume the
  generator and return what they return on the array of its items, unless the
  generator raises an error before they are done.

  On an array the accessors do what the spec says. \<^verbatim>\<open>first\<close> on the empty array fails
  with \<open>EmptySequence\<close> and \<^verbatim>\<open>firstOrDefault\<close> on it returns \<^verbatim>\<open>null\<close>. When more than one
  item matches, \<^verbatim>\<open>single\<close> and \<^verbatim>\<open>singleOrDefault\<close> both fail with \<open>MultipleMatches\<close>;
  when exactly one item \<open>x\<close> matches, both return \<open>x\<close>. When no item matches, \<^verbatim>\<open>first\<close>,
  \<^verbatim>\<open>last\<close> and \<^verbatim>\<open>single\<close> fail, with \<open>EmptySequence\<close> on the empty array and \<open>NoMatch\<close>
  otherwise, while their \<^verbatim>\<open>OrDefault\<close> variants return \<^verbatim>\<open>null\<close>.
  \<^verbatim>\<open>single([1,2], x => x > 0)\<close> and \<^verbatim>\<open>singleOrDefault([1,2], x => x > 0)\<close> fail with
  \<open>MultipleMatches\<close>; \<^verbatim>\<open>single([1,2], x => x > 1)\<close> returns \<open>2\<close>.
\<close>

theorem accessors_failures:
  fixes predicate :: "('a \<Rightarrow> bool, 'l) IPartArgument"
  shows "first (Generator xs fin) predicate = Inl EmptySequence
   \<and> last_op (Generator xs fin) predicate = Inl EmptySequence
   \<and> single_op (Generator xs fin) predicate = Inl EmptySequence
   \<and> lastOrDefault (Generator xs fin) predicate = Null
   \<and> single_op (Generator [1, 2] None) (callable (\<lambda>x. x > 1) :: (int \<Rightarrow> bool, 'l) IPartArgument)
        = Inl EmptySequence
   \<and> single_op (Generator [1, 2] None) (callable (\<lambda>x. x > 0) :: (int \<Rightarrow> bool, 'l) IPartArgument)
        = Inl EmptySequence
   \<and> first (Generator [2, 3] None) (no_argument :: (int \<Rightarrow> bool, 'l) IPartArgument)
        = Inl EmptySequence
   \<and> firstOrDefault (Generator xs None) predicate = firstOrDefault (Array xs) predicate
   \<and> singleOrDefault (Generator xs None) predicate = singleOrDefault (Array xs) predicate
   \<and> firstOrDefault (Generator xs (Some e)) predicate
        = (if matching predicate xs = [] then Inl e else firstOrDefault (Array xs) predicate)
   \<and> singleOrDefault (Generator xs (Some e)) predicate
        = (if 1 < length (matching predicate xs) then Inl MultipleMatches else Inl e)
   \<and> first (Array []) predicate = Inl EmptySequence
   \<and> firstOrDefault (Array []) predicate = Inr Null
   \<and> (1 < length (matching predicate items) \<longrightarrow>
        single_op (Array items) predicate = Inl MultipleMatches
        \<and> singleOrDefault (Array items) predicate = Inl MultipleMatches)
   \<and> (matching predicate items = [x] \<longrightarrow>
        single_op (Array items) predicate = Inr (Val x)
        \<and> singleOrDefault (Array items) predicate = Inr (Val x))
   \<and> (matching predicate items = [] \<longrightarrow>
        first (Array items) predicate = Inl (if items = [] then EmptySequence else NoMatch)
        \<and> last_op (Array items) predicate
             = Inl (if items = [] then EmptySequence else NoMatch)
        \<and> single_op (Array items) predicate
             = Inl (if items = [] then EmptySequence else NoMatch)
        \<and> firstOrDefault (Array items) predicate = Inr Null
        \<and> lastOrDefault (Array items) predicate = Null
        \<and> singleOrDefault (Array items) predicate = Inr Null)
   \<and> single_op (Array [1, 2]) (callable (\<lambda>x. x > 0) :: (int \<Rightarrow> bool, 'l) IPartArgument)
        = Inl MultipleMatches
   \<and> singleOrDefault (Array [1, 2]) (callable (\<lambda>x. x > 0) :: (int \<Rightarrow> bool, 'l) IPartArgument)
        = Inl MultipleMatches
   \<and> single_op (Array [1, 2]) (callable (\<lambda>x. x > 1) :: (int \<Rightarrow> bool, 'l) IPartArgument)
        = Inr (Val 2)"
proof -
  have lazy: "first (Generator xs fin) predicate = Inl EmptySequence"
    "last_op (Generator xs fin) predicate = Inl EmptySequence"
    "single_op (Generator xs fin) predicate = Inl EmptySequence"
    "lastOrDefault (Generator xs fin) predicate = Null"
    by (simp_all add: first_def last_op_def single_op_def lastOrDefault_def not_length_def)
  have lazy_ex:
    "single_op (Generator [1, 2] None) (callable (\<lambda>x. x > 1) :: (int \<Rightarrow> bool, 'l) IPartArgument)
       = Inl EmptySequence"
    "single_op (Generator [1, 2] None) (callable (\<lambda>x. x > 0) :: (int \<Rightarrow> bool, 'l) IPartArgument)
       = Inl EmptySequence"
    "first (Generator [2, 3] None) (no_argument :: (int \<Rightarrow> bool, 'l) IPartArgument)
       = Inl EmptySequence"
    by (simp_all add: first_def single_op_def not_length_def)
  have consumed:
    "firstOrDefault (Generator xs None) predicate = firstOrDefault (Array xs) predicate"
    "singleOrDefault (Generator xs None) predicate = singleOrDefault (Array xs) predicate"
    by (simp_all add: firstOrDefault_def singleOrDefault_def getFirst_def getSingle_def)
  have raised:
    "firstOrDefault (Generator xs (Some e)) predicate
       = (if matching predicate xs = [] then Inl e else firstOrDefault (Array xs) predicate)"
    "singleOrDefault (Generator xs (Some e)) predicate
       = (if 1 < length (matching predicate xs) then Inl MultipleMatches else Inl e)"
    by (simp_all add: firstOrDefault_def singleOrDefault_def getFirst_def getSingle_def
        getFirst_loop_matching getSingle_loop_start split: list.splits)
  have empty: "first (Array []) predicate = Inl EmptySequence"
    "firstOrDefault (Array []) predicate = Inr Null"
    by (simp_all add: first_def firstOrDefault_def getFirst_def not_length_def)
  have many: "single_op (Array items) predicate = Inl MultipleMatches
      \<and> singleOrDefault (Array items) predicate = Inl MultipleMatches"
    if "1 < length (matching predicate items)"
  proof -
    from that have "items \<noteq> []" by (auto simp: matching_def)
    with that show ?thesis
      by (simp add: single_op_def singleOrDefault_def getSingle_def getSingle_loop_start
          not_length_def)
  qed
  have one: "single_op (Array items) predicate = Inr (Val x)
      \<and> singleOrDefault (Array items) predicate = Inr (Val x)"
    if "matching predicate items = [x]"
  proof -
    from that have "items \<noteq> []" by (auto simp: matching_def)
    with that show ?thesis
      by (simp add: single_op_def singleOrDefault_def getSingle_def getSingle_loop_start
          not_length_def)
  qed
  have none: "first (Array items) predicate = Inl (if items = [] then EmptySequence else NoMatch)
      \<and> last_op (Array items) predicate = Inl (if items = [] then EmptySequence else NoMatch)
      \<and> single_op (Array items) predicate = Inl (if items = [] then EmptySequence else NoMatch)
      \<and> firstOrDefault (Array items) predicate = Inr Null
      \<and> lastOrDefault (Array items) predicate = Null
      \<and> singleOrDefault (Array items) predicate = Inr Null"
    if "matching predicate items = []"
    using that
    by (simp add: first_def last_op_def single_op_def firstOrDefault_def lastOrDefault_def
        singleOrDefault_def getSingle_def getSingle_loop_start getFirst_def
        getFirst_loop_matching getLast_from_matching not_length_def)
  have ex:
    "single_op (Array [1, 2]) (callable (\<lambda>x. x > 0) :: (int \<Rightarrow> bool, 'l) IPartArgument)
       = Inl MultipleMatches"
    "singleOrDefault (Array [1, 2]) (callable (\<lambda>x. x > 0) :: (int \<Rightarrow> bool, 'l) IPartArgument)
       = Inl MultipleMatches"
    "single_op (Array [1, 2]) (callable (\<lambda>x. x > 1) :: (int \<Rightarrow> bool, 'l) IPartArgument)
       = Inr (Val 2)"
    by (simp_all add: single_op_def singleOrDefault_def getSingle_def callable_def
        not_length_def)
  from lazy lazy_ex consumed raised empty many one none ex show ?thesis by blast
qed

theorem accessors_failures_witness:
  "1 < length (matching (callable (\<lambda>x. x > (0::int)) :: (int \<Rightarrow> bool, unit) IPartArgument) [1, 2, 3])
   \<and> single_op (Array [1, 2, 3]) (callable (\<lambda>x. x > (0::int)) :: (int \<Rightarrow> bool, unit) IPartArgument)
        = Inl MultipleMatches
   \<and> singleOrDefault (Array [1, 2, 3])
        (callable (\<lambda>x. x > (0::int)) :: (int \<Rightarrow> bool, unit) IPartArgument)
        = Inl MultipleMatches
   \<and> matching (callable (\<lambda>x. x > (2::int)) :: (int \<Rightarrow> bool, unit) IPartArgument) [1, 2, 3] = [3]
   \<and> single_op (Array [1, 2, 3]) (callable (\<lambda>x. x > (2::int)) :: (int \<Rightarrow> bool, unit) IPartArgument)
        = Inr (Val 3)
   \<and> single_op (Generator [1, 2, 3] None)
        (callable (\<lambda>x. x > (2::int)) :: (int \<Rightarrow> bool, unit) IPartArgument)
        = Inl EmptySequence
   \<and> matching (callable (\<lambda>x. x > (5::int)) :: (int \<Rightarrow> bool, unit) IPartArgument) [1, 2, 3] = []
   \<and> first (Array [1, 2, 3]) (callable (\<lambda>x. x > (5::int)) :: (int \<Rightarrow> bool, unit) IPartArgument)
        = Inl NoMatch
   \<and> firstOrDefault (Array [1, 2, 3])
        (callable (\<lambda>x. x > (5::int)) :: (int \<Rightarrow> bool, unit) IPartArgument)
        = Inr Null
   \<and> singleOrDefault (Array [1, 2, 3])
        (callable (\<lambda>x. x > (5::int)) :: (int \<Rightarrow> bool, unit) IPartArgument)
        = Inr Null
   \<and> matching (no_argument :: (int \<Rightarrow> bool, unit) IPartArgument) [] = []
   \<and> single_op (Array ([] :: int list)) (no_argument :: (int \<Rightarrow> bool, unit) IPartArgument)
        = Inl EmptySequence"
proof -
  let ?p0 = "callable (\<lambda>x. x > (0::int)) :: (int \<Rightarrow> bool, unit) IPartArgument"
  let ?p2 = "callable (\<lambda>x. x > (2::int)) :: (int \<Rightarrow> bool, unit) IPartArgument"
  let ?p5 = "callable (\<lambda>x. x > (5::int)) :: (int \<Rightarrow> bool, unit) IPartArgument"
  let ?pn = "no_argument :: (int \<Rightarrow> bool, unit) IPartArgument"
  have m0: "1 < length (matching ?p0 [1, 2, 3])" by (simp add: matching_def callable_def)
  have m2: "matching ?p2 [1, 2, 3] = [3]" by (simp add: matching_def callable_def)
  have m5: "matching ?p5 [1, 2, 3] = []" by (simp add: matching_def callable_def)
  have mn: "matching ?pn [] = []" by (simp add: matching_def)
  show ?thesis
    using m0 m2 m5 mn
      accessors_failures [where predicate = ?p0 and items = "[1, 2, 3]" and x = 3
        and xs = "[1, 2, 3]" and fin = None and e = TypeError]
      accessors_failures [where predicate = ?p2 and items = "[1, 2, 3]" and x = 3
        and xs = "[1, 2, 3]" and fin = None and e = TypeError]
      accessors_failures [where predicate = ?p5 and items = "[1, 2, 3]" and x = 3
        and xs = "[1, 2, 3]" and fin = None and e = TypeError]
      accessors_failures [where predicate = ?pn and items = "[]" and x = 3
        and xs = "[1, 2, 3]" and fin = None and e = TypeError]
    by simp
qed

text \<open>
  C6. \<^verbatim>\<open>elementAt\<close> with the index equal to the length is not rejected: the check is
  \<^verbatim>\<open>index.literal > items.length\<close>, so the read \<^verbatim>\<open>items[items.length]\<close> happens and
  \<^verbatim>\<open>undefined\<close> is returned; \<^verbatim>\<open>elementAt([1,2,3], 3)\<close> and \<^verbatim>\<open>elementAt([1,2,3], -1)\<close>
  return \<^verbatim>\<open>undefined\<close>, \<^verbatim>\<open>elementAt([1,2,3], 5)\<close> fails with \<open>IndexOutOfRange\<close> and
  \<^verbatim>\<open>elementAt([1,2,3], 0)\<close> returns \<open>1\<close>.
\<close>

theorem elementAt_length_not_rejected:
  "elementAt items (lit (int (length items))) = Inr Undefined
   \<and> elementAt [1, 2, 3 :: int] (lit 3) = Inr Undefined
   \<and> elementAt [1, 2, 3 :: int] (lit (-1)) = Inr Undefined
   \<and> elementAt [1, 2, 3 :: int] (lit 5) = Inl IndexOutOfRange
   \<and> elementAt [1, 2, 3 :: int] (lit 0) = Inr (Val 1)"
  by (simp add: elementAt_def lit_def index_read_def)

subsection \<open>Ordering\<close>

text \<open>
  C2. The direction of the fused sort, on the keys \<open>1, 3, 2\<close> with the identity as
  selector: a part of kind \<^verbatim>\<open>orderBy\<close> or \<^verbatim>\<open>thenBy\<close> puts the larger key first, and a
  part of kind \<^verbatim>\<open>orderByDescending\<close> puts the smaller key first; only
  \<^verbatim>\<open>thenByDescending\<close> sorts in the direction of its name. The condition
  \<^verbatim>\<open>descFuncs.indexOf(s.type) ? -1 : 1\<close> is false only at index \<open>0\<close>.
\<close>

theorem orderBy_direction:
  "orderBy [1, 3, 2 :: int] [ordering QueryFunc_orderBy (\<lambda>x. x)] = Inr [3, 2, 1]
   \<and> orderBy [1, 3, 2 :: int] [ordering QueryFunc_thenBy (\<lambda>x. x)] = Inr [3, 2, 1]
   \<and> orderBy [1, 3, 2 :: int] [ordering QueryFunc_orderByDescending (\<lambda>x. x)] = Inr [1, 2, 3]
   \<and> orderBy [1, 3, 2 :: int] [ordering QueryFunc_thenByDescending (\<lambda>x. x)] = Inr [3, 2, 1]"
  by (simp add: orderBy_def slice_def ordering_def callable_def descFuncs_def
      comparator_result_def)

subsection \<open>Grouping, distinct, zip\<close>

text \<open>
  C3. \<^verbatim>\<open>groupBy([1,2,1,3], x => x % 2)\<close>, with a value selector that returns the key
  and the members of the group it is given: the keys come in the order \<open>1, 0\<close>, the
  group of key \<open>1\<close> holds \<open>1, 3\<close> and the group of key \<open>0\<close> is empty. The item that
  opens a group is not pushed into it.
\<close>

theorem groupBy_drops_first_member:
  "groupBy [1, 2, 1, 3 :: int] (callable (\<lambda>x. x mod 2)) (callable (\<lambda>g. (key g, members g)))
     = Inr [(1, [1, 3]), (0, [])]"
  by (simp add: groupBy_def callable_def deepEqual_def)

lemma distinct_scan_self:
  "i < length items \<Longrightarrow> distinct_scan items \<lparr>func = None, literal = l\<rparr> (items ! i) i = i"
  by (subst distinct_scan.simps) simp

lemma distinct_from_nothing:
  "distinct_from items \<lparr>func = None, literal = l\<rparr> i = []"
proof (induction items "\<lparr>func = None, literal = l\<rparr> :: ('a \<Rightarrow> 'a \<Rightarrow> bool, 'b) IPartArgument" i
    rule: distinct_from.induct)
  case (1 items i)
  show ?case
  proof (cases "i < length items")
    case True
    with "1" show ?thesis
      by (subst distinct_from.simps) (simp add: distinct_scan_self del: distinct_scan.simps)
  next
    case False
    then show ?thesis by (subst distinct_from.simps) simp
  qed
qed

text \<open>
  C4. Without a comparer \<^verbatim>\<open>distinct\<close> yields nothing, whatever the sequence: the inner
  loop starts at \<open>j = i\<close>, where an item is compared with itself, so it breaks at once
  and \<open>j\<close> never reaches the length. In particular \<^verbatim>\<open>distinct([1,2,3])\<close>, in which no two
  items are equal, yields the empty sequence.
\<close>

theorem distinct_yields_nothing:
  "distinct_op items no_argument = []
   \<and> distinct_op [1, 2, 3 :: int] no_argument = []"
  by (simp add: distinct_op_def no_argument_def distinct_from_nothing del: distinct_from.simps)

lemma zip_op_literal:
  "zip_op items (lit os) (callable f)
     = Inr (map (\<lambda>i. f (Val (items ! i)) Undefined) [0..<min (length items) (length os)])"
  by (simp add: zip_op_def getArray_def lit_def callable_def argument_index_def
      index_read_def Let_def)

text \<open>
  C5. \<^verbatim>\<open>zip\<close> yields as many items as the shorter of the two sequences has, and the
  item at position \<open>i\<close> is the selector applied to \<open>items[i]\<close> and to \<^verbatim>\<open>undefined\<close>: the
  second argument is read from the part argument \<^verbatim>\<open>other\<close>, not from the array \<^verbatim>\<open>os\<close>.
  For \<open>[1, 2]\<close> and \<open>[10, 20]\<close> with the pairing selector the items are
  \<open>(1, undefined)\<close> and \<open>(2, undefined)\<close>.
\<close>

theorem zip_second_undefined:
  "zip_op items (lit os) (callable f :: ('a js \<Rightarrow> 'b js \<Rightarrow> 'c, 'l) IPartArgument)
     = Inr (map (\<lambda>i. f (Val (items ! i)) Undefined) [0..<min (length items) (length os)])
   \<and> zip_op [1, 2 :: int] (lit [10, 20 :: int])
        (callable (\<lambda>a b. (a, b)) :: (int js \<Rightarrow> int js \<Rightarrow> int js \<times> int js, 'l) IPartArgument)
     = Inr [(Val 1, Undefined), (Val 2, Undefined)]"
  by (simp add: zip_op_literal)

subsection \<open>Take\<close>

lemma take_loop_invariant:
  assumes "literal count = Some n" and "i = int pulled" and "pulled \<le> nat n"
    and "yielded = map (\<lambda>k. the (src k)) [0..<pulled]"
    and "\<forall>k<pulled. src k \<noteq> None"
  shows "case take_loop src count i yielded pulled of (out, p) \<Rightarrow>
           ((p = length out \<and> src p = None)
            \<or> (p = length out + 1 \<and> length out = nat n \<and> src (nat n) \<noteq> None))
           \<and> length out \<le> nat n
           \<and> out = map (\<lambda>k. the (src k)) [0..<length out]
           \<and> (\<forall>k<length out. src k \<noteq> None)"
  using assms
proof (induction src count i yielded pulled rule: take_loop.induct)
  case (1 src count i yielded pulled)
  show ?case
  proof (cases "src pulled")
    case None
    with "1.prems" show ?thesis
      by (subst take_loop.simps) simp
  next
    case (Some item)
    show ?thesis
    proof (cases "i + 1 \<le> n")
      case True
      have step: "take_loop src count i yielded pulled
          = take_loop src count (i + 1) (yielded @ [item]) (pulled + 1)"
        using Some True "1.prems"(1) by (subst take_loop.simps) simp
      have "case take_loop src count (i + 1) (yielded @ [item]) (pulled + 1) of (out, p) \<Rightarrow>
           ((p = length out \<and> src p = None)
            \<or> (p = length out + 1 \<and> length out = nat n \<and> src (nat n) \<noteq> None))
           \<and> length out \<le> nat n
           \<and> out = map (\<lambda>k. the (src k)) [0..<length out]
           \<and> (\<forall>k<length out. src k \<noteq> None)"
      proof (rule "1.IH" [OF Some _ "1.prems"(1)])
        show "case literal count of None \<Rightarrow> False | Some n \<Rightarrow> i + 1 \<le> n"
          using True "1.prems"(1) by simp
        show "i + 1 = int (pulled + 1)" using "1.prems"(2) by simp
        show "pulled + 1 \<le> nat n" using True "1.prems"(2) by simp
        show "yielded @ [item] = map (\<lambda>k. the (src k)) [0..<pulled + 1]"
          using "1.prems"(4) Some by simp
        show "\<forall>k<pulled + 1. src k \<noteq> None"
          using "1.prems"(5) Some by (auto simp: less_Suc_eq)
      qed
      with step show ?thesis by simp
    next
      case False
      have stop: "take_loop src count i yielded pulled = (yielded, pulled + 1)"
        using Some False "1.prems"(1) by (subst take_loop.simps) simp
      have "pulled = nat n" using False "1.prems"(2,3) by simp
      with stop "1.prems" Some show ?thesis by simp
    qed
  qed
qed

text \<open>
  C9. Consuming \<^verbatim>\<open>take(S, n)\<close> to the end pulls one item more than the count: on the
  unbounded upstream \<open>0, 1, 2, ...\<close> \<^verbatim>\<open>take(S, 2)\<close> yields \<open>0, 1\<close> and pulls three
  items, and on the array \<open>[5, 6, 7]\<close> it yields \<open>5, 6\<close> and pulls all three. In
  general the items yielded are the first items of the upstream, at most \<open>n\<close> of them,
  and either the upstream is exhausted and every item pulled was yielded, or \<open>n\<close> items
  were yielded and one more item was pulled, at which the loop breaks; so at most
  \<open>n + 1\<close> items are pulled (one item when \<open>n \<le> 0\<close>), and exactly \<open>n + 1\<close> on an
  unbounded upstream. The loop is a total function: it ends on every upstream.
\<close>

theorem take_pulls_one_past_count:
  "(case take_op src (lit n :: ('f, int) IPartArgument) of (out, pulled) \<Rightarrow>
       pulled \<le> nat n + 1
       \<and> length out \<le> nat n
       \<and> map Some out = map src [0..<length out]
       \<and> ((pulled = length out \<and> src pulled = None)
          \<or> (pulled = length out + 1 \<and> length out = nat n \<and> src (nat n) \<noteq> None)))
     \<and> ((\<forall>k. src k \<noteq> None) \<longrightarrow>
          take_op src (lit n :: ('f, int) IPartArgument)
            = (map (\<lambda>k. the (src k)) [0..<nat n], nat n + 1))
     \<and> take_op (\<lambda>k::nat. Some k) (lit 2 :: ('f, int) IPartArgument) = ([0, 1], 3)
     \<and> take_op (array_producer [5, 6, 7 :: int]) (lit 2 :: ('f, int) IPartArgument)
          = ([5, 6], 3)"
proof -
  let ?count = "lit n :: ('f, int) IPartArgument"
  have inv: "case take_loop src ?count 0 [] 0 of (out, p) \<Rightarrow>
           ((p = length out \<and> src p = None)
            \<or> (p = length out + 1 \<and> length out = nat n \<and> src (nat n) \<noteq> None))
           \<and> length out \<le> nat n
           \<and> out = map (\<lambda>k. the (src k)) [0..<length out]
           \<and> (\<forall>k<length out. src k \<noteq> None)"
    by (rule take_loop_invariant [where n = n]) (simp_all add: lit_def)
  obtain out p where r: "take_loop src ?count 0 [] 0 = (out, p)"
    by (cases "take_loop src ?count 0 [] 0")
  from inv r have shape:
      "(p = length out \<and> src p = None)
       \<or> (p = length out + 1 \<and> length out = nat n \<and> src (nat n) \<noteq> None)"
    and len: "length out \<le> nat n"
    and items: "out = map (\<lambda>k. the (src k)) [0..<length out]"
    and present: "\<forall>k<length out. src k \<noteq> None"
    by simp_all
  from shape len have bound: "p \<le> nat n + 1" by auto
  have "map Some (map (\<lambda>k. the (src k)) [0..<length out]) = map src [0..<length out]"
    using present by simp
  with items have some: "map Some out = map src [0..<length out]" by simp
  have unbounded: "(out, p) = (map (\<lambda>k. the (src k)) [0..<nat n], nat n + 1)"
    if "\<forall>k. src k \<noteq> None"
  proof -
    from shape that have "p = length out + 1" "length out = nat n" by auto
    with items show ?thesis by simp
  qed
  have ex: "take_op (\<lambda>k::nat. Some k) (lit 2 :: ('f, int) IPartArgument) = ([0, 1], 3)"
    "take_op (array_producer [5, 6, 7 :: int]) (lit 2 :: ('f, int) IPartArgument) = ([5, 6], 3)"
    by (simp_all add: take_op_def lit_def array_producer_def)
  show ?thesis
    unfolding take_op_def r using bound len some shape unbounded ex [unfolded take_op_def]
    by simp
qed

theorem take_pulls_one_past_count_witness:
  "(\<forall>k. (\<lambda>k::nat. Some (10 + k)) k \<noteq> None)
   \<and> take_op (\<lambda>k::nat. Some (10 + k)) (lit 2 :: (unit, int) IPartArgument) = ([10, 11], 3)"
proof -
  have "map (\<lambda>k::nat. 10 + k) [0..<2] = [10, 11]" by (simp add: upt_rec)
  then show ?thesis
    using take_pulls_one_past_count [where src = "\<lambda>k::nat. Some (10 + k)" and n = 2
        and 'f = unit]
    by simp
qed

subsection \<open>The executor\<close>

text \<open>
  C8. With a parts list that is \<^verbatim>\<open>undefined\<close>, \<^verbatim>\<open>null\<close> or empty, \<^verbatim>\<open>execute\<close> returns
  the source as it is, also a \<^verbatim>\<open>null\<close> source, and raises nothing. With a parts list
  that is not empty, a \<^verbatim>\<open>null\<close> or \<^verbatim>\<open>undefined\<close> source fails with \<open>InvalidSource\<close>,
  whatever the operators of the table would do.
\<close>

theorem execute_without_parts:
  "execute impl items Undefined = Inr (map_js Inl items)
   \<and> execute impl items Null = Inr (map_js Inl items)
   \<and> execute impl items (Val []) = Inr (map_js Inl items)
   \<and> execute impl Null (Val []) = Inr Null
   \<and> execute impl Null (Val (p # ps)) = Inl InvalidSource
   \<and> execute impl Undefined (Val (p # ps)) = Inl InvalidSource"
  by (simp add: execute_def check_def)

text \<open>
  C1. The executor buffers only the kinds of \<^verbatim>\<open>thenFuncs\<close>. A part of kind \<^verbatim>\<open>orderBy\<close>
  or \<^verbatim>\<open>orderByDescending\<close> is dispatched through the table, which has no entry for it:
  executing the single part \<^verbatim>\<open>orderBy(k)\<close> fails with \<open>UnknownOperator\<close> on every
  source. A pending buffer is not flushed at the end of the list: executing the single
  part \<^verbatim>\<open>thenBy(k)\<close> returns the source in its own order, \<open>[3, 1, 2]\<close> for the source
  \<open>[3, 1, 2]\<close> and the identity as key.
\<close>

theorem execute_orderBy_unknown:
  "execute impl (Val items) (Val [ordering QueryFunc_orderBy k])
     = Inl (UnknownOperator QueryFunc_orderBy)
   \<and> execute impl (Val items) (Val [ordering QueryFunc_orderByDescending k])
     = Inl (UnknownOperator QueryFunc_orderByDescending)
   \<and> execute impl (Val items) (Val [ordering QueryFunc_thenBy k]) = Inr (Val (Inl items))
   \<and> execute (\<lambda>t v a. Inr v) (Val [3, 1, 2 :: int]) (Val [ordering QueryFunc_orderBy (\<lambda>x. x)])
     = Inl (UnknownOperator QueryFunc_orderBy)
   \<and> execute (\<lambda>t v a. Inr v) (Val [3, 1, 2 :: int]) (Val [ordering QueryFunc_thenBy (\<lambda>x. x)])
     = Inr (Val (Inl [3, 1, 2]))"
  by (simp add: execute_def check_def ordering_def thenFuncs_def handlePart_def funcs_def
      funcs_keys_def)

subsection \<open>The source array is left as it is\<close>

text \<open>
  A heap stays \<open>unchanged\<close> under the creation of arrays and under a write at an
  address that it does not have.
\<close>

lemma unchanged_refl: "unchanged h h"
  by (simp add: unchanged_def)

lemma unchanged_append: "unchanged h0 h \<Longrightarrow> unchanged h0 (h @ created)"
  by (simp add: unchanged_def)

lemma unchanged_update: "unchanged h0 h \<Longrightarrow> length h0 \<le> a \<Longrightarrow> unchanged h0 (h[a := c])"
  by (simp add: unchanged_def)

lemma unchanged_trans: "unchanged h0 h \<Longrightarrow> unchanged h h' \<Longrightarrow> unchanged h0 h'"
proof -
  assume a: "unchanged h0 h" and b: "unchanged h h'"
  from a have l0: "length h0 \<le> length h" and t0: "take (length h0) h = h0"
    by (simp_all add: unchanged_def)
  from b have l1: "length h \<le> length h'" and t1: "take (length h) h' = h"
    by (simp_all add: unchanged_def)
  have "take (length h0) h' = take (length h0) (take (length h) h')"
    using l0 by (simp add: min_def)
  with t0 t1 l0 l1 show ?thesis by (simp add: unchanged_def)
qed

lemma unchanged_is_append: "unchanged h h' \<Longrightarrow> h' = h @ drop (length h) h'"
proof -
  assume "unchanged h h'"
  hence "take (length h) h' = h" by (simp add: unchanged_def)
  hence "take (length h) h' @ drop (length h) h' = h @ drop (length h) h'" by simp
  thus ?thesis by simp
qed

text \<open>
  The statements of the language keep an invariant of the heap when their parts do: the
  rules by which the operators are taken apart.
\<close>

lemma grows_unchanged: "grows (unchanged h0)"
  by (simp add: grows_def unchanged_append)

lemma safe_ret: "safe I (ret x)"
  by (simp add: safe_def ret_def)

lemma safe_throw: "safe I (throw e)"
  by (simp add: safe_def throw_def)

lemma safe_continue: "safe I (continue s)"
  by (simp add: continue_def safe_ret)

lemma safe_yield: "safe I (yield v)"
  by (simp add: safe_def yield_def)

lemma safe_reading: "safe I (reading f)"
  by (simp add: safe_def reading_def)

lemma safe_trying: "safe I (trying f)"
  by (simp add: safe_def trying_def)

lemma safe_andThen:
  assumes "safe I m" and "\<And>x. safe I (f x)"
  shows "safe I (andThen m f)"
proof -
  have "I (snd (andThen m f h))" if i: "I h" for h
  proof -
    obtain ys r h' where m: "m h = ((ys, r), h')" by (metis prod.collapse)
    from assms(1) i m have i': "I h'" by (auto simp: safe_def)
    show ?thesis
    proof (cases r)
      case (Inl e)
      with m i' show ?thesis by (simp add: andThen_def)
    next
      case (Inr x)
      obtain zs r' h'' where f: "f x h' = ((zs, r'), h'')" by (metis prod.collapse)
      from assms(2) [of x] i' f have "I h''" by (auto simp: safe_def)
      with m Inr f show ?thesis by (simp add: andThen_def)
    qed
  qed
  thus ?thesis by (simp add: safe_def)
qed

lemma safe_if: "safe I a \<Longrightarrow> safe I b \<Longrightarrow> safe I (if c then a else b)"
  by simp

lemma safe_case_option:
  "safe I a \<Longrightarrow> (\<And>g. safe I (b g)) \<Longrightarrow> safe I (case x of None \<Rightarrow> a | Some g \<Rightarrow> b g)"
  by (cases x) simp_all

lemma safe_case_flow:
  "(\<And>s. safe I (a s)) \<Longrightarrow> (\<And>v. safe I (b v))
     \<Longrightarrow> safe I (case x of Continue s \<Rightarrow> a s | Stop v \<Rightarrow> b v)"
  by (cases x) simp_all

lemma safe_case_prod: "(\<And>a b. safe I (f a b)) \<Longrightarrow> safe I (case p of (a, b) \<Rightarrow> f a b)"
  by (cases p) simp

lemma safe_case_prod_applied:
  "(\<And>a b. safe I (f a b x)) \<Longrightarrow> safe I ((case p of (a, b) \<Rightarrow> f a b) x)"
  by (cases p) simp

lemma safe_case_any:
  "safe I a \<Longrightarrow> safe I b \<Longrightarrow> (\<And>x. safe I (c x)) \<Longrightarrow> (\<And>x. safe I (d x))
     \<Longrightarrow> (\<And>x. safe I (e x)) \<Longrightarrow> (\<And>x y. safe I (f x y)) \<Longrightarrow> (\<And>x. safe I (g x))
     \<Longrightarrow> safe I (case v of Undef \<Rightarrow> a | Nul \<Rightarrow> b | Boolean x \<Rightarrow> c x | Number x \<Rightarrow> d x
           | Reference x \<Rightarrow> e x | Lazy x y \<Rightarrow> f x y | Foreign x \<Rightarrow> g x)"
  by (cases v) simp_all

lemma safe_for_each:
  assumes "\<And>s x. safe I (body s x)"
  shows "safe I (for_each body s xs)"
proof (induction xs arbitrary: s)
  case Nil
  show ?case by (simp add: safe_ret)
next
  case (Cons x xs)
  show ?case
    by (simp, intro safe_andThen assms safe_case_flow Cons.IH safe_ret)
qed

lemma safe_source: "grows I \<Longrightarrow> creates_only source \<Longrightarrow> safe I source"
proof -
  assume g: "grows I" and c: "creates_only source"
  have "I (snd (source h))" if i: "I h" for h
  proof -
    from c have "unchanged h (snd (source h))" by (simp add: creates_only_def)
    hence "snd (source h) = h @ drop (length h) (snd (source h))"
      by (rule unchanged_is_append)
    moreover from g i have "I (h @ drop (length h) (snd (source h)))"
      by (simp add: grows_def)
    ultimately show ?thesis by simp
  qed
  thus ?thesis by (simp add: safe_def)
qed

lemma safe_for_of:
  assumes "safe I source" and "\<And>s x. safe I (body s x)"
  shows "safe I (for_of source body s)"
  unfolding for_of_def
  by (intro safe_andThen safe_case_prod safe_case_flow safe_case_option safe_for_each
      safe_ret safe_throw assms)

text \<open>
  The calls and the writes. A callback and the creation of an array keep every invariant
  that survives creation. A write keeps \<open>unchanged h0\<close> when its address is not one
  of \<open>h0\<close>; code that follows the creation of an array may use that the address of the
  new array is not one of \<open>h0\<close>.
\<close>

lemma safe_call: "grows I \<Longrightarrow> safe I (call f actuals)"
  by (cases f) (auto simp: call_def safe_def throw_def grows_def split: prod.splits)

lemma safe_new_array: "grows I \<Longrightarrow> safe I (new_array xs)"
  by (simp add: safe_def new_array_def grows_def)

lemma safe_new_array_then:
  assumes "\<And>a. length h0 \<le> a \<Longrightarrow> safe (unchanged h0) (f a)"
  shows "safe (unchanged h0) (andThen (new_array xs) f)"
proof -
  have "unchanged h0 (snd (andThen (new_array xs) f h))" if i: "unchanged h0 h" for h
  proof -
    let ?h' = "h @ [\<lparr>elements = xs, key_property = None\<rparr>]"
    obtain zs r h'' where f: "f (length h) ?h' = ((zs, r), h'')" by (metis prod.collapse)
    from i have "length h0 \<le> length h" by (simp add: unchanged_def)
    hence "safe (unchanged h0) (f (length h))" by (rule assms)
    moreover from i have "unchanged h0 ?h'" by (rule unchanged_append)
    ultimately have "unchanged h0 h''" using f by (auto simp: safe_def)
    with f show ?thesis by (simp add: andThen_def new_array_def)
  qed
  thus ?thesis by (simp add: safe_def)
qed

lemma safe_push: "length h0 \<le> a \<Longrightarrow> safe (unchanged h0) (push a v)"
  by (simp add: safe_def push_def unchanged_update)

lemma safe_set_key: "length h0 \<le> a \<Longrightarrow> safe (unchanged h0) (set_key a k)"
  by (simp add: safe_def set_key_def unchanged_update)

lemma safe_set_elements: "length h0 \<le> a \<Longrightarrow> safe (unchanged h0) (set_elements a xs)"
  by (simp add: safe_def set_elements_def unchanged_update)

lemma safe_func_of: "safe I (func_of arg)"
  by (cases arg) (simp_all add: func_of_def safe_ret safe_throw)

lemma safe_literal_of: "safe I (literal_of arg)"
  by (cases arg) (simp_all add: literal_of_def safe_ret safe_throw)

lemma safe_length_of: "safe I (length_of rt v)"
  by (cases v) (simp_all add: length_of_def safe_ret safe_throw safe_reading)

lemma safe_read_index: "safe I (read_index rt v i)"
  by (cases v) (simp_all add: read_index_def safe_ret safe_throw safe_reading)

lemma safe_read_property: "safe I (read_property rt v ix)"
  by (cases v; cases ix)
     (simp_all add: read_property_def safe_ret safe_throw safe_reading safe_read_index)

lemma safe_read_key: "safe I (read_key rt g)"
  by (cases g) (simp_all add: read_key_def safe_ret safe_throw safe_reading)

lemma safe_iterate_value: "safe I (iterate_value rt v)"
  by (cases v)
     (simp_all add: iterate_value_def safe_ret safe_throw safe_reading split: option.split)

lemma safe_receiver: "safe I (receiver rt v)"
  by (cases v)
     (simp_all add: receiver_def safe_ret safe_throw safe_reading split: option.split)

lemma safe_is_function: "safe I (is_function f)"
  by (cases f) (simp_all add: is_function_def safe_ret safe_throw)

lemmas safe_basic =
  safe_andThen safe_if safe_case_option safe_case_prod safe_case_flow safe_for_each safe_for_of
  safe_ret safe_throw safe_continue safe_yield safe_reading safe_trying safe_func_of
  safe_literal_of safe_length_of safe_read_index safe_read_property safe_read_key
  safe_iterate_value safe_receiver safe_is_function safe_call safe_new_array
  safe_case_prod_applied

lemma safe_getArray_h: "grows I \<Longrightarrow> safe I (getArray_h arg)"
  unfolding getArray_h_def by (intro safe_basic)

lemma safe_Array_some: "grows I \<Longrightarrow> safe I (Array_some rt f this xs)"
  unfolding Array_some_def by (intro safe_basic)

lemma safe_Array_every: "grows I \<Longrightarrow> safe I (Array_every rt f this xs)"
  unfolding Array_every_def by (intro safe_basic)

lemma safe_Array_filter:
  assumes "grows I" and "\<And>x i. safe I (callbackfn x i)"
  shows "safe I (Array_filter rt callbackfn xs)"
  unfolding Array_filter_def by (intro safe_basic assms)

lemma safe_Array_map:
  assumes "grows I" and "\<And>x i. safe I (callbackfn x i)"
  shows "safe I (Array_map callbackfn xs)"
  unfolding Array_map_def by (intro safe_basic assms)

lemma safe_Array_reduce:
  assumes "\<And>p c. safe I (callbackfn p c)"
  shows "safe I (Array_reduce callbackfn initialValue xs)"
  unfolding Array_reduce_def by (intro safe_basic assms)

lemma safe_Array_find:
  assumes "\<And>x. safe I (predicate x)"
  shows "safe I (Array_find rt predicate xs)"
  unfolding Array_find_def by (intro safe_basic assms)

lemma safe_Set_has: "safe I (Set_has rt s v)"
  by (simp add: Set_has_def safe_reading)

lemma safe_Set_add: "length h0 \<le> s \<Longrightarrow> safe (unchanged h0) (Set_add rt s v)"
  unfolding Set_add_def by (intro safe_basic safe_Set_has safe_push)


text \<open>The builtins, the helpers of the operators, and every operator of the table.\<close>

lemma andThen_assoc: "andThen (andThen m g) f = andThen m (\<lambda>x. andThen (g x) f)"
  by (auto simp: andThen_def fun_eq_iff split: prod.splits sum.splits)

lemma andThen_ret: "andThen (ret x) f = f x"
  by (auto simp: andThen_def ret_def fun_eq_iff split: prod.splits sum.splits)

lemma safe_new_Set_then:
  assumes "\<And>s. length h0 \<le> s \<Longrightarrow> safe (unchanged h0) (f s)"
  shows "safe (unchanged h0) (andThen (new_Set rt iterable) f)"
  unfolding new_Set_def andThen_assoc andThen_ret
  by (intro safe_new_array_then safe_basic safe_Set_add assms grows_unchanged
      safe_case_any)

lemma safe_test_predicate: "grows I \<Longrightarrow> safe I (test_predicate rt predicate i)"
  unfolding test_predicate_def by (intro safe_basic)

lemma safe_getFirst_h:
  assumes "grows I" and "safe I source"
  shows "safe I (getFirst_h rt source predicate)"
  unfolding getFirst_h_def by (intro safe_basic safe_test_predicate assms)

lemma safe_getLast_h: "grows I \<Longrightarrow> safe I (getLast_h rt items predicate)"
  unfolding getLast_h_def by (intro safe_basic safe_test_predicate)

lemma safe_getSingle_h:
  assumes "safe (unchanged h0) source"
  shows "safe (unchanged h0) (getSingle_h rt source predicate)"
  unfolding getSingle_h_def
  by (intro safe_new_array_then safe_basic safe_test_predicate safe_push assms grows_unchanged)

lemma safe_mapped_or_items: "grows I \<Longrightarrow> safe I (mapped_or_items rt items selector)"
  unfolding mapped_or_items_def by (intro safe_basic safe_Array_map)

lemma safe_selected: "grows I \<Longrightarrow> safe I (selected selector c)"
  unfolding selected_def by (intro safe_basic)

lemmas safe_helpers =
  safe_new_Set_then safe_new_array_then safe_basic safe_getArray_h safe_Array_some
  safe_Array_every safe_Array_filter safe_Array_map safe_Array_reduce safe_Array_find
  safe_Set_has safe_Set_add safe_push safe_test_predicate safe_getFirst_h safe_getLast_h
  safe_getSingle_h safe_mapped_or_items safe_selected grows_unchanged

lemma safe_where_h:
  assumes "creates_only source"
  shows "safe (unchanged h0) (where_h rt source items actuals)"
  unfolding where_h_def Let_def
  by (intro safe_helpers safe_source [OF grows_unchanged assms])

lemma safe_ofType_h:
  assumes "creates_only source"
  shows "safe (unchanged h0) (ofType_h rt source items actuals)"
  unfolding ofType_h_def Let_def
  by (intro safe_helpers safe_source [OF grows_unchanged assms])

lemma safe_cast_h:
  assumes "creates_only source"
  shows "safe (unchanged h0) (cast_h rt source items actuals)"
  unfolding cast_h_def Let_def
  by (intro safe_helpers safe_source [OF grows_unchanged assms])

lemma safe_select_h:
  assumes "creates_only source"
  shows "safe (unchanged h0) (select_h rt source items actuals)"
  unfolding select_h_def Let_def
  by (intro safe_helpers safe_source [OF grows_unchanged assms])

lemma safe_selectMany_h:
  assumes "creates_only source"
  shows "safe (unchanged h0) (selectMany_h rt source items actuals)"
  unfolding selectMany_h_def Let_def
  by (intro safe_helpers safe_source [OF grows_unchanged assms])

lemma safe_joinWith_h:
  assumes "creates_only source"
  shows "safe (unchanged h0) (joinWith_h rt source items actuals)"
  unfolding joinWith_h_def Let_def
  by (intro safe_helpers safe_source [OF grows_unchanged assms])

lemma safe_groupJoin_h:
  assumes "creates_only source"
  shows "safe (unchanged h0) (groupJoin_h rt source items actuals)"
  unfolding groupJoin_h_def Let_def
  by (intro safe_helpers safe_source [OF grows_unchanged assms])

lemma safe_take_h:
  assumes "creates_only source"
  shows "safe (unchanged h0) (take_h rt source items actuals)"
  unfolding take_h_def Let_def
  by (intro safe_helpers safe_source [OF grows_unchanged assms])

lemma safe_takeWhile_h:
  assumes "creates_only source"
  shows "safe (unchanged h0) (takeWhile_h rt source items actuals)"
  unfolding takeWhile_h_def Let_def
  by (intro safe_helpers safe_source [OF grows_unchanged assms])

lemma safe_skip_h:
  assumes "creates_only source"
  shows "safe (unchanged h0) (skip_h rt source items actuals)"
  unfolding skip_h_def Let_def
  by (intro safe_helpers safe_source [OF grows_unchanged assms])

lemma safe_skipWhile_h:
  assumes "creates_only source"
  shows "safe (unchanged h0) (skipWhile_h rt source items actuals)"
  unfolding skipWhile_h_def Let_def
  by (intro safe_helpers safe_source [OF grows_unchanged assms])

lemma safe_distinct_h:
  assumes "creates_only source"
  shows "safe (unchanged h0) (distinct_h rt source items actuals)"
  unfolding distinct_h_def Let_def
  by (intro safe_helpers safe_source [OF grows_unchanged assms])

lemma safe_concatWith_h:
  assumes "creates_only source"
  shows "safe (unchanged h0) (concatWith_h rt source items actuals)"
  unfolding concatWith_h_def Let_def
  by (intro safe_helpers safe_source [OF grows_unchanged assms])

lemma safe_zip_h:
  assumes "creates_only source"
  shows "safe (unchanged h0) (zip_h rt source items actuals)"
  unfolding zip_h_def Let_def
  by (intro safe_helpers safe_source [OF grows_unchanged assms])

lemma safe_union_h:
  assumes "creates_only source"
  shows "safe (unchanged h0) (union_h rt source items actuals)"
  unfolding union_h_def Let_def
  by (intro safe_helpers safe_source [OF grows_unchanged assms])

lemma safe_intersect_h:
  assumes "creates_only source"
  shows "safe (unchanged h0) (intersect_h rt source items actuals)"
  unfolding intersect_h_def Let_def
  by (intro safe_helpers safe_source [OF grows_unchanged assms])

lemma safe_except_h:
  assumes "creates_only source"
  shows "safe (unchanged h0) (except_h rt source items actuals)"
  unfolding except_h_def Let_def
  by (intro safe_helpers safe_source [OF grows_unchanged assms])

lemma safe_defaultIfEmpty_h:
  assumes "creates_only source"
  shows "safe (unchanged h0) (defaultIfEmpty_h rt source items actuals)"
  unfolding defaultIfEmpty_h_def Let_def
  by (intro safe_helpers safe_source [OF grows_unchanged assms])

lemma safe_reverse_h:
  assumes "creates_only source"
  shows "safe (unchanged h0) (reverse_h rt source items actuals)"
  unfolding reverse_h_def Let_def
  by (intro safe_helpers safe_source [OF grows_unchanged assms])

lemma safe_first_h:
  assumes "creates_only source"
  shows "safe (unchanged h0) (first_h rt source items actuals)"
  unfolding first_h_def Let_def
  by (intro safe_helpers safe_source [OF grows_unchanged assms])

lemma safe_firstOrDefault_h:
  assumes "creates_only source"
  shows "safe (unchanged h0) (firstOrDefault_h rt source items actuals)"
  unfolding firstOrDefault_h_def Let_def
  by (intro safe_helpers safe_source [OF grows_unchanged assms])

lemma safe_last_h:
  assumes "creates_only source"
  shows "safe (unchanged h0) (last_h rt source items actuals)"
  unfolding last_h_def Let_def
  by (intro safe_helpers safe_source [OF grows_unchanged assms])

lemma safe_lastOrDefault_h:
  assumes "creates_only source"
  shows "safe (unchanged h0) (lastOrDefault_h rt source items actuals)"
  unfolding lastOrDefault_h_def Let_def
  by (intro safe_helpers safe_source [OF grows_unchanged assms])

lemma safe_single_h:
  assumes "creates_only source"
  shows "safe (unchanged h0) (single_h rt source items actuals)"
  unfolding single_h_def Let_def
  by (intro safe_helpers safe_source [OF grows_unchanged assms])

lemma safe_singleOrDefault_h:
  assumes "creates_only source"
  shows "safe (unchanged h0) (singleOrDefault_h rt source items actuals)"
  unfolding singleOrDefault_h_def Let_def
  by (intro safe_helpers safe_source [OF grows_unchanged assms])

lemma safe_elementAt_h:
  assumes "creates_only source"
  shows "safe (unchanged h0) (elementAt_h rt source items actuals)"
  unfolding elementAt_h_def Let_def
  by (intro safe_helpers safe_source [OF grows_unchanged assms])

lemma safe_elementAtOrDefault_h:
  assumes "creates_only source"
  shows "safe (unchanged h0) (elementAtOrDefault_h rt source items actuals)"
  unfolding elementAtOrDefault_h_def Let_def
  by (intro safe_helpers safe_source [OF grows_unchanged assms])

lemma safe_contains_h:
  assumes "creates_only source"
  shows "safe (unchanged h0) (contains_h rt source items actuals)"
  unfolding contains_h_def Let_def
  by (intro safe_helpers safe_source [OF grows_unchanged assms])

lemma safe_sequenceEqual_h:
  assumes "creates_only source"
  shows "safe (unchanged h0) (sequenceEqual_h rt source items actuals)"
  unfolding sequenceEqual_h_def Let_def
  by (intro safe_helpers safe_source [OF grows_unchanged assms])

lemma safe_any_h:
  assumes "creates_only source"
  shows "safe (unchanged h0) (any_h rt source items actuals)"
  unfolding any_h_def Let_def
  by (intro safe_helpers safe_source [OF grows_unchanged assms])

lemma safe_all_h:
  assumes "creates_only source"
  shows "safe (unchanged h0) (all_h rt source items actuals)"
  unfolding all_h_def Let_def
  by (intro safe_helpers safe_source [OF grows_unchanged assms])

lemma safe_count_h:
  assumes "creates_only source"
  shows "safe (unchanged h0) (count_h rt source items actuals)"
  unfolding count_h_def Let_def
  by (intro safe_helpers safe_source [OF grows_unchanged assms])

lemma safe_min_h:
  assumes "creates_only source"
  shows "safe (unchanged h0) (min_h rt source items actuals)"
  unfolding min_h_def Let_def
  by (intro safe_helpers safe_source [OF grows_unchanged assms])

lemma safe_max_h:
  assumes "creates_only source"
  shows "safe (unchanged h0) (max_h rt source items actuals)"
  unfolding max_h_def Let_def
  by (intro safe_helpers safe_source [OF grows_unchanged assms])

lemma safe_sum_h:
  assumes "creates_only source"
  shows "safe (unchanged h0) (sum_h rt source items actuals)"
  unfolding sum_h_def Let_def
  by (intro safe_helpers safe_source [OF grows_unchanged assms])

lemma safe_average_h:
  assumes "creates_only source"
  shows "safe (unchanged h0) (average_h rt source items actuals)"
  unfolding average_h_def Let_def
  by (intro safe_helpers safe_source [OF grows_unchanged assms] safe_sum_h assms)

lemma safe_aggregate_h:
  assumes "creates_only source"
  shows "safe (unchanged h0) (aggregate_h rt source items actuals)"
  unfolding aggregate_h_def Let_def
  by (intro safe_helpers safe_source [OF grows_unchanged assms])


text \<open>
  \<^verbatim>\<open>groupBy\<close> pushes into the array that \<^verbatim>\<open>find\<close> returned. What \<^verbatim>\<open>find\<close> returns is an
  element of \<^verbatim>\<open>groups\<close> or \<^verbatim>\<open>undefined\<close>, and by the invariant of the loop the elements of
  \<^verbatim>\<open>groups\<close> are arrays that \<^verbatim>\<open>groupBy\<close> created.
\<close>

lemma establishes_ret: "Q x \<Longrightarrow> establishes I (ret x) Q"
  by (simp add: establishes_def ret_def)

lemma establishes_reading: "(\<And>h. I h \<Longrightarrow> Q (f h)) \<Longrightarrow> establishes I (reading f) Q"
  by (simp add: establishes_def reading_def)

lemma establishes_andThen:
  assumes "establishes I m R" and "\<And>x. R x \<Longrightarrow> establishes I (f x) Q"
  shows "establishes I (andThen m f) Q"
proof -
  have "I (snd (andThen m f h)) \<and> (\<forall>y. snd (fst (andThen m f h)) = Inr y \<longrightarrow> Q y)"
    if i: "I h" for h
  proof -
    obtain ys r h' where m: "m h = ((ys, r), h')" by (metis prod.collapse)
    from assms(1) i m have i': "I h'" and r: "\<And>x. r = Inr x \<Longrightarrow> R x"
      by (auto simp: establishes_def)
    show ?thesis
    proof (cases r)
      case (Inl e)
      with m i' show ?thesis by (simp add: andThen_def)
    next
      case (Inr x)
      obtain zs r' h'' where f: "f x h' = ((zs, r'), h'')" by (metis prod.collapse)
      from r Inr have "R x" by simp
      from assms(2) [OF this] i' f have "I h''" and "\<And>y. r' = Inr y \<Longrightarrow> Q y"
        by (auto simp: establishes_def)
      with m Inr f show ?thesis by (simp add: andThen_def)
    qed
  qed
  thus ?thesis by (simp add: establishes_def)
qed

lemma safe_establishes: "safe I m \<Longrightarrow> establishes I m (\<lambda>x. True)"
  by (simp add: safe_def establishes_def)

lemma establishes_safe: "establishes I m Q \<Longrightarrow> safe I m"
  by (simp add: safe_def establishes_def)

lemma safe_andThen_established:
  assumes "establishes I m R" and "\<And>x. R x \<Longrightarrow> safe I (f x)"
  shows "safe I (andThen m f)"
  by (rule establishes_safe, rule establishes_andThen [OF assms(1)],
      rule safe_establishes, rule assms(2))

lemma establishes_find_loop:
  assumes "\<And>x. safe I (predicate x)"
  shows "establishes I
           (for_each (\<lambda>u x. andThen (predicate x) (\<lambda>b.
               if b then ret (Stop x) else ret (Continue ()))) () xs)
           (\<lambda>r. case r of Stop x \<Rightarrow> x \<in> set xs | Continue u \<Rightarrow> True)"
proof (induction xs)
  case Nil
  show ?case by (simp add: establishes_ret)
next
  case (Cons y ys)
  have body: "establishes I
      (andThen (predicate y) (\<lambda>b. if b then ret (Stop y) else ret (Continue ())))
      (\<lambda>r. case r of Stop x \<Rightarrow> x = y | Continue u \<Rightarrow> True)"
    by (rule establishes_andThen [OF safe_establishes [OF assms]])
       (simp add: establishes_ret)
  have rest: "establishes I
      (for_each (\<lambda>u x. andThen (predicate x) (\<lambda>b.
          if b then ret (Stop x) else ret (Continue ()))) () ys)
      (\<lambda>r. case r of Stop x \<Rightarrow> x \<in> set (y # ys) | Continue u \<Rightarrow> True)"
    using Cons.IH by (auto simp: establishes_def split: flow.splits)
  show ?case
    apply (simp del: set_simps)
    apply (rule establishes_andThen [OF body])
    subgoal for r
      by (cases r) (simp_all add: rest establishes_ret)
    done
qed

lemma establishes_Array_find:
  assumes "\<And>x. safe I (predicate x)"
  shows "establishes I (Array_find rt predicate xs) (\<lambda>a. a = Undef \<or> a \<in> set xs)"
  unfolding Array_find_def
  apply (rule establishes_andThen [OF establishes_find_loop [OF assms]])
  subgoal for r
    by (cases r) (simp_all add: establishes_ret)
  done

lemma grows_groups_invariant: "grows (groups_invariant h0 groups)"
  by (auto simp: grows_def groups_invariant_def unchanged_append nth_append)

lemma safe_push_group:
  "groups < r \<Longrightarrow> safe (groups_invariant h0 groups) (push r v)"
  by (auto simp: safe_def push_def groups_invariant_def unchanged_update)

lemma safe_push_value_group:
  assumes "a = Undef \<or> a \<in> set gs"
    and "\<forall>v \<in> set gs. \<exists>r. v = Reference r \<and> groups < r"
  shows "safe (groups_invariant h0 groups) (push_value a v)"
proof (cases "a = Undef")
  case True
  thus ?thesis by (simp add: push_value_def safe_throw)
next
  case False
  with assms obtain r where "a = Reference r" and "groups < r" by auto
  thus ?thesis by (simp add: push_value_def safe_push_group)
qed

lemma safe_new_group:
  "safe (groups_invariant h0 groups)
     (andThen (new_array []) (\<lambda>created.
      andThen (set_key created k) (\<lambda>_. push groups (Reference created))))"
proof -
  have "groups_invariant h0 groups
          (snd (andThen (new_array []) (\<lambda>created.
                andThen (set_key created k) (\<lambda>_. push groups (Reference created))) h))"
    if i: "groups_invariant h0 groups h" for h :: "'a heap"
  proof -
    from i have u: "unchanged h0 h" and b: "length h0 \<le> groups" and g: "groups < length h"
      and c: "\<forall>v \<in> set (elements (h ! groups)). \<exists>r. v = Reference r \<and> groups < r"
      by (simp_all add: groups_invariant_def)
    let ?e = "\<lparr>elements = [], key_property = None\<rparr> :: 'a array"
    let ?h1 = "(h @ [?e])[length h := ((h @ [?e]) ! length h)\<lparr>key_property := Some k\<rparr>]"
    let ?h2 = "?h1[groups := (?h1 ! groups)\<lparr>elements := elements (?h1 ! groups) @ [Reference (length h)]\<rparr>]"
    have r: "snd (andThen (new_array []) (\<lambda>created.
                andThen (set_key created k) (\<lambda>_. push groups (Reference created))) h) = ?h2"
      by (simp add: andThen_def new_array_def set_key_def push_def)
    from g have n: "elements (?h2 ! groups) = elements (h ! groups) @ [Reference (length h)]"
      by (simp add: nth_append)
    from u b g have "unchanged h0 ?h2"
      by (intro unchanged_update unchanged_append) simp_all
    moreover from g have "groups < length ?h2" by simp
    moreover from g c have
      "\<forall>v \<in> set (elements (?h2 ! groups)). \<exists>r. v = Reference r \<and> groups < r"
      unfolding n by auto
    ultimately show ?thesis using b unfolding r groups_invariant_def by blast
  qed
  thus ?thesis by (simp add: safe_def)
qed

lemma establishes_groups:
  "establishes (groups_invariant h0 groups) (reading (\<lambda>h. elements_at h groups))
     (\<lambda>gs. \<forall>v \<in> set gs. \<exists>r. v = Reference r \<and> groups < r)"
  by (rule establishes_reading) (simp add: groups_invariant_def elements_at_def)

lemma safe_groups_then:
  assumes "\<And>groups. length h0 \<le> groups \<Longrightarrow> safe (groups_invariant h0 groups) (f groups)"
  shows "safe (unchanged h0) (andThen (new_array []) f)"
proof -
  have "unchanged h0 (snd (andThen (new_array []) f h))" if i: "unchanged h0 h" for h
  proof -
    let ?h' = "h @ [\<lparr>elements = [], key_property = None\<rparr>]"
    obtain zs r h'' where f: "f (length h) ?h' = ((zs, r), h'')" by (metis prod.collapse)
    from i have l: "length h0 \<le> length h" by (simp add: unchanged_def)
    hence "safe (groups_invariant h0 (length h)) (f (length h))" by (rule assms)
    moreover from i l have "groups_invariant h0 (length h) ?h'"
      by (simp add: groups_invariant_def unchanged_append)
    ultimately have "groups_invariant h0 (length h) h''" using f by (auto simp: safe_def)
    hence "unchanged h0 h''" by (simp add: groups_invariant_def)
    with f show ?thesis by (simp add: andThen_def new_array_def)
  qed
  thus ?thesis by (simp add: safe_def)
qed

lemma safe_group_step:
  assumes "\<And>g. safe (groups_invariant h0 groups) (predicate g)"
  shows "safe (groups_invariant h0 groups)
     (andThen (reading (\<lambda>h. elements_at h groups)) (\<lambda>gs.
      andThen (Array_find rt predicate gs) (\<lambda>a.
      andThen (if \<not> truthy rt a
               then andThen (new_array []) (\<lambda>created.
                    andThen (set_key created k) (\<lambda>_.
                    push groups (Reference created)))
               else push_value a i) (\<lambda>_.
      continue ()))))"
  apply (rule safe_andThen_established [OF establishes_groups])
  apply (rule safe_andThen_established [OF establishes_Array_find [OF assms]])
  apply (rule safe_andThen [OF _ safe_continue])
  apply (rule safe_if [OF safe_new_group])
  apply (erule (1) safe_push_value_group)
  done

lemma safe_groupBy_h:
  assumes "creates_only source"
  shows "safe (unchanged h0) (groupBy_h rt source items actuals)"
  unfolding groupBy_h_def Let_def
  apply (rule safe_groups_then)
  apply (rule safe_andThen)
   apply (rule safe_for_of [OF safe_source [OF grows_groups_invariant assms]])
   apply (rule safe_andThen [OF safe_func_of])
   apply (rule safe_andThen [OF safe_call [OF grows_groups_invariant]])
   apply (rule safe_group_step)
   apply (intro safe_andThen safe_read_key safe_reading)
  apply (intro safe_andThen safe_for_of safe_ret safe_continue safe_func_of safe_yield
      safe_iterate_value safe_call grows_groups_invariant)
  done

text \<open>The table, the generators and the executor.\<close>

lemma creates_onlyI: "(\<And>h0. safe (unchanged h0) m) \<Longrightarrow> creates_only m"
  by (auto simp: creates_only_def safe_def unchanged_refl)

lemma creates_only_safe: "creates_only m \<Longrightarrow> safe (unchanged h0) m"
  by (rule safe_source [OF grows_unchanged])

lemma creates_only_collect: "creates_only g \<Longrightarrow> creates_only (collect g)"
proof -
  assume c: "creates_only g"
  have "snd (collect g h) = snd (g h)" for h
    by (simp add: collect_def split: prod.splits)
  with c show ?thesis by (simp add: creates_only_def)
qed

lemma frame_bodyI:
  "(\<And>source items actuals h0. creates_only source
      \<Longrightarrow> safe (unchanged h0) (f source items actuals)) \<Longrightarrow> frame_body f"
  by (simp add: frame_body_def creates_onlyI)

lemma operators_frame:
  "case operators rt t of Generator_function f \<Rightarrow> frame_body f | Plain_function f \<Rightarrow> frame_body f"
  by (cases t)
     (simp_all add: operators_def frame_bodyI safe_where_h safe_ofType_h safe_cast_h
        safe_select_h safe_selectMany_h safe_joinWith_h safe_groupJoin_h safe_take_h
        safe_takeWhile_h safe_skip_h safe_skipWhile_h safe_groupBy_h safe_distinct_h
        safe_concatWith_h safe_zip_h safe_union_h safe_intersect_h safe_except_h
        safe_defaultIfEmpty_h safe_reverse_h safe_first_h safe_firstOrDefault_h safe_last_h
        safe_lastOrDefault_h safe_single_h safe_singleOrDefault_h safe_elementAt_h
        safe_elementAtOrDefault_h safe_contains_h safe_sequenceEqual_h safe_any_h safe_all_h
        safe_count_h safe_min_h safe_max_h safe_sum_h safe_average_h safe_aggregate_h
        safe_throw)

lemma funcs_frame: "funcs (operators rt) t = Some entry
  \<Longrightarrow> (case entry of Generator_function f \<Rightarrow> frame_body f | Plain_function f \<Rightarrow> frame_body f)"
  using operators_frame [of rt t] by (auto simp: funcs_def split: if_splits)

lemma creates_only_throw: "creates_only (throw e)"
  by (simp add: creates_only_def throw_def unchanged_refl)

lemma creates_only_ret: "creates_only (ret x)"
  by (simp add: creates_only_def ret_def unchanged_refl)

lemma creates_only_iterate_value: "creates_only (iterate_value rt v)"
  by (rule creates_onlyI) (rule safe_iterate_value)

lemma creates_only_iterate: "creates_only (iterate rt parts v)"
proof (induction v)
  case (Lazy k items)
  show ?case
  proof (cases "param parts k")
    case None
    thus ?thesis by (simp add: creates_only_throw)
  next
    case (Some part)
    show ?thesis
    proof (cases "funcs (operators rt) (type part)")
      case None
      with Some show ?thesis by (simp add: creates_only_throw)
    next
      case (Some entry)
      note e = this
      show ?thesis
      proof (cases entry)
        case (Generator_function f)
        with funcs_frame [OF e] have "frame_body f" by simp
        with Lazy.IH have "creates_only (f (iterate rt parts items) items (args part))"
          by (simp add: frame_body_def)
        with \<open>param parts k = Some part\<close> e Generator_function show ?thesis
          by (simp add: creates_only_collect)
      next
        case (Plain_function f)
        with \<open>param parts k = Some part\<close> e show ?thesis by (simp add: creates_only_throw)
      qed
    qed
  qed
qed (simp_all add: creates_only_iterate_value)

lemma creates_only_handlePart_h: "creates_only (handlePart_h rt parts k items part)"
proof (cases "funcs (operators rt) (type part)")
  case None
  thus ?thesis by (simp add: handlePart_h_def creates_only_throw)
next
  case (Some entry)
  note e = this
  show ?thesis
  proof (cases entry)
    case (Generator_function f)
    with e show ?thesis by (simp add: handlePart_h_def creates_only_ret)
  next
    case (Plain_function f)
    with funcs_frame [OF e] have "frame_body f" by simp
    hence "creates_only (f (iterate rt parts items) items (args part))"
      by (simp add: frame_body_def creates_only_iterate)
    with e Plain_function show ?thesis by (simp add: handlePart_h_def)
  qed
qed

lemma safe_compare_keys_h: "grows I \<Longrightarrow> safe I (compare_keys_h rt keySelectors i1 i2)"
proof (induction keySelectors)
  case Nil
  show ?case by (simp add: safe_ret)
next
  case (Cons s keySelectors)
  show ?case
    unfolding compare_keys_h.simps Let_def
    by (intro safe_basic Cons)
qed

lemma safe_sort_insert_h:
  assumes "\<And>x y. safe I (comparefn x y)"
  shows "safe I (sort_insert_h comparefn x ys)"
proof (induction ys)
  case Nil
  show ?case by (simp add: safe_ret)
next
  case (Cons y ys)
  show ?case
    unfolding sort_insert_h.simps
    by (intro safe_basic Cons assms)
qed

lemma safe_Array_sort_h:
  assumes "\<And>x y. safe I (comparefn x y)"
  shows "safe I (Array_sort_h comparefn xs)"
proof (induction xs)
  case Nil
  show ?case by (simp add: safe_ret)
next
  case (Cons x xs)
  show ?case
    unfolding Array_sort_h.simps
    by (intro safe_basic Cons safe_sort_insert_h assms)
qed

lemma creates_only_orderBy_h: "creates_only (orderBy_h rt items keySelectors)"
  unfolding orderBy_h_def slice_h_def andThen_assoc
  by (rule creates_onlyI)
     (intro safe_new_array_then safe_basic safe_Array_sort_h safe_compare_keys_h
        safe_set_elements grows_unchanged)

lemma creates_only_andThen:
  "creates_only m \<Longrightarrow> (\<And>x. creates_only (f x)) \<Longrightarrow> creates_only (andThen m f)"
  by (rule creates_onlyI) (intro safe_andThen creates_only_safe)

lemma creates_only_execute_loop_h:
  "creates_only (execute_loop_h rt parts items val orderParts k rest)"
proof (induction rest arbitrary: val orderParts k)
  case Nil
  show ?case by (simp add: creates_only_ret)
next
  case (Cons p rest)
  show ?case
    by (simp add: creates_only_andThen creates_only_orderBy_h creates_only_ret
        creates_only_handlePart_h Cons)
qed

lemma creates_only_check_h: "creates_only (check_h rt items)"
  by (simp add: check_h_def creates_only_ret creates_only_throw)

lemma creates_only_execute_h: "creates_only (execute_h rt items parts)"
proof (cases parts)
  case (Val ps)
  show ?thesis
  proof (cases ps)
    case Nil
    with Val show ?thesis by (simp add: execute_h_def creates_only_ret)
  next
    case (Cons p rest)
    with Val show ?thesis
      by (simp add: execute_h_def creates_only_andThen creates_only_check_h
          creates_only_execute_loop_h del: execute_loop_h.simps)
  qed
qed (simp_all add: execute_h_def creates_only_ret)

text \<open>\<^verbatim>\<open>orderBy\<close> returns the copy.\<close>

lemma returns_ret: "Q x \<Longrightarrow> returns (ret x) Q"
  by (simp add: returns_def ret_def)

lemma returns_andThen:
  assumes "\<And>x. returns (f x) Q"
  shows "returns (andThen m f) Q"
proof -
  have "case snd (fst (andThen m f h)) of Inr x \<Rightarrow> Q x | Inl e \<Rightarrow> True" for h
  proof -
    obtain ys r h' where m: "m h = ((ys, r), h')" by (metis prod.collapse)
    show ?thesis
    proof (cases r)
      case (Inl e)
      with m show ?thesis by (simp add: andThen_def)
    next
      case (Inr x)
      obtain zs r' h'' where f: "f x h' = ((zs, r'), h'')" by (metis prod.collapse)
      from assms [of x] f have "case r' of Inr y \<Rightarrow> Q y | Inl e \<Rightarrow> True"
        by (auto simp: returns_def dest: spec [of _ h'])
      with m Inr f show ?thesis by (simp add: andThen_def)
    qed
  qed
  thus ?thesis by (simp add: returns_def)
qed

lemma receiver_reads: "snd (receiver rt v h) = h"
  by (cases v) (simp_all add: receiver_def reading_def throw_def ret_def split: option.split)

lemma andThen_Inl: "m h = ((ys, Inl e), h') \<Longrightarrow> andThen m f h = ((ys, Inl e), h')"
  by (simp add: andThen_def)

lemma andThen_Inr:
  "m h = ((ys, Inr x), h')
     \<Longrightarrow> andThen m f h = (case f x h' of ((zs, r), h'') \<Rightarrow> ((ys @ zs, r), h''))"
  by (simp add: andThen_def)

lemma orderBy_h_copy:
  "case snd (fst (orderBy_h rt items keySelectors h)) of
     Inr v \<Rightarrow> v = Reference (length h) | Inl e \<Rightarrow> True"
proof -
  obtain ys r h' where m: "receiver rt items h = ((ys, r), h')" by (metis prod.collapse)
  with receiver_reads [of rt items h] have h': "h' = h" by simp
  show ?thesis
  proof (cases r)
    case (Inl e)
    with m show ?thesis by (simp add: orderBy_h_def slice_h_def andThen_assoc andThen_Inl)
  next
    case (Inr xs)
    let ?rest = "\<lambda>copy. andThen (reading (\<lambda>h. elements_at h copy)) (\<lambda>xs.
       andThen (Array_sort_h (compare_keys_h rt keySelectors) xs) (\<lambda>ordered.
       andThen (set_elements copy ordered) (\<lambda>_. ret (Reference copy))))"
    let ?h = "h @ [\<lparr>elements = xs, key_property = None\<rparr>]"
    have "returns (?rest (length h)) (\<lambda>v. v = Reference (length h))"
      by (intro returns_andThen returns_ret) simp
    hence c: "case snd (fst (?rest (length h) ?h)) of
             Inr v \<Rightarrow> v = Reference (length h) | Inl e \<Rightarrow> True"
      unfolding returns_def by (rule spec)
    have n: "new_array xs h = (([], Inr (length h)), ?h)" by (simp add: new_array_def)
    from m Inr h' have m': "receiver rt items h = ((ys, Inr xs), h)" by simp
    have "orderBy_h rt items keySelectors h
            = andThen (receiver rt items) (\<lambda>xs. andThen (new_array xs) ?rest) h"
      by (simp add: orderBy_h_def slice_h_def andThen_assoc)
    also have "\<dots> = (case andThen (new_array xs) ?rest h of
                         ((zs, r), h'') \<Rightarrow> ((ys @ zs, r), h''))"
      by (rule andThen_Inr [of "receiver rt items" h ys xs h, OF m'])
    also have "andThen (new_array xs) ?rest h
                 = (case ?rest (length h) ?h of ((zs, r), h'') \<Rightarrow> (([] @ zs, r), h''))"
      by (rule andThen_Inr [of "new_array xs" h "[]" "length h" ?h, OF n])
    finally have "snd (fst (orderBy_h rt items keySelectors h))
                    = snd (fst (?rest (length h) ?h))"
      by (simp split: prod.splits)
    with c show ?thesis by simp
  qed
qed

lemmas run_simps =
  andThen_def ret_def throw_def yield_def reading_def trying_def new_array_def push_def
  set_key_def set_elements_def call_def continue_def for_of_def collect_def param_def
  func_of_def literal_of_def length_of_def read_index_def read_key_def iterate_value_def
  receiver_def elements_at_def element_def truthy_def

text \<open>
  Three runs on the numbers. The source is the array at address \<open>0\<close>.
  \<^item> Executing \<^verbatim>\<open>[thenBy(x => x), defaultIfEmpty()]\<close> on \<open>[3, 1, 2]\<close>: the ordering is
    flushed before \<^verbatim>\<open>defaultIfEmpty\<close>; the result is a new array at address \<open>1\<close>, which
    the sort has ordered, and the source is as it was.
  \<^item> Iterating the generator of \<^verbatim>\<open>union(other)\<close> on \<open>[1, 2, 1]\<close>, with the source as
    \<^verbatim>\<open>other\<close> too: the \<^verbatim>\<open>Set\<close> is the new cell at address \<open>1\<close>, with the members in it.
  \<^item> Iterating the generator of \<^verbatim>\<open>groupBy(x => x, g => g)\<close> on \<open>[1, 2, 1]\<close>: the array
    \<^verbatim>\<open>groups\<close> is the new cell at address \<open>1\<close>, the groups are the cells after it.
\<close>

lemma orderBy_example:
  "execute_h (on_numbers rt) (Reference 0)
     (Val [\<lparr>type = QueryFunc_thenBy, args = [callable identity]\<rparr>,
           \<lparr>type = QueryFunc_defaultIfEmpty, args = []\<rparr>]) [numbers [3, 1, 2]]
   = (([], Inr (Reference 1)), [numbers [3, 1, 2], numbers [3, 2, 1]])"
  by (simp add: execute_h_def check_h_def thenFuncs_def orderBy_h_def slice_h_def
      handlePart_h_def funcs_def funcs_keys_def operators_def defaultIfEmpty_h_def
      descFuncs_def comparator_result_def on_numbers_def identity_def numbers_def callable_def
      run_simps)

lemma union_example:
  "iterate (on_numbers rt) [\<lparr>type = QueryFunc_union, args = [lit (Reference 0)]\<rparr>]
     (Lazy 0 (Reference 0)) [numbers [1, 2, 1]]
   = (([], Inr ([Number 1, Number 2], None)), [numbers [1, 2, 1], numbers [1, 2]])"
  by (simp add: funcs_def funcs_keys_def operators_def union_h_def new_Set_def Set_has_def
      Set_add_def getArray_h_def on_numbers_def numbers_def lit_def run_simps)

lemma groupBy_example:
  "iterate (on_numbers rt)
     [\<lparr>type = QueryFunc_groupBy, args = [callable identity, callable identity]\<rparr>]
     (Lazy 0 (Reference 0)) [numbers [1, 2, 1]]
   = (([], Inr ([Reference 2, Reference 3], None)),
      [numbers [1, 2, 1], \<lparr>elements = [Reference 2, Reference 3], key_property = None\<rparr>,
       \<lparr>elements = [Number 1], key_property = Some (Number 1)\<rparr>,
       \<lparr>elements = [], key_property = Some (Number 2)\<rparr>])"
  by (simp add: funcs_def funcs_keys_def operators_def groupBy_h_def Array_find_def
      push_value_def on_numbers_def identity_def numbers_def callable_def run_simps)

text \<open>
  C10. Executing any pipeline leaves the source array unchanged, and so does iterating
  what the execution returned. For every runtime, every heap \<open>h\<close>, every source
  \<open>items\<close> and every pipeline, with callbacks that are pure:
  \<^item> the heap that \<open>execute_h\<close> leaves has every array of \<open>h\<close> at its address with the
    same elements in the same order, the source array among them;
  \<^item> so has the heap that iterating a value to its end leaves, whichever value: the
    generator object that the execution returned, on the heap it left, is one. The
    bodies of the generator functions run there, so this is where \<^verbatim>\<open>groupBy\<close>, the set
    operators, \<^verbatim>\<open>groupJoin\<close> and \<^verbatim>\<open>distinct\<close> create and fill their buffers: every write
    of every operator of the table goes into an array that the operator created;
  \<^item> what \<open>orderBy_h\<close> returns, when it returns, is the array at the address
    \<open>length h\<close>, which did not exist before: the sort orders the copy that \<^verbatim>\<open>slice\<close>
    made.
\<close>

theorem source_array_unchanged:
  "unchanged h (snd (execute_h rt items parts h))
   \<and> unchanged h (snd (iterate rt pipeline v h))
   \<and> (case snd (fst (orderBy_h rt items keySelectors h)) of
        Inr ordered \<Rightarrow> ordered = Reference (length h)
      | Inl e \<Rightarrow> True)"
proof (intro conjI)
  show "unchanged h (snd (execute_h rt items parts h))"
    using creates_only_execute_h [of rt items parts] by (simp add: creates_only_def)
  show "unchanged h (snd (iterate rt pipeline v h))"
    using creates_only_iterate [of rt pipeline v] by (simp add: creates_only_def)
  show "case snd (fst (orderBy_h rt items keySelectors h)) of
          Inr ordered \<Rightarrow> ordered = Reference (length h)
        | Inl e \<Rightarrow> True"
    by (rule orderBy_h_copy)
qed

theorem source_array_unchanged_witness:
  "\<forall>rt :: unit runtime.
     unchanged [numbers [3, 1, 2]]
       (snd (execute_h (on_numbers rt) (Reference 0)
          (Val [\<lparr>type = QueryFunc_thenBy, args = [callable identity]\<rparr>,
                \<lparr>type = QueryFunc_defaultIfEmpty, args = []\<rparr>]) [numbers [3, 1, 2]]))
     \<and> snd (execute_h (on_numbers rt) (Reference 0)
          (Val [\<lparr>type = QueryFunc_thenBy, args = [callable identity]\<rparr>,
                \<lparr>type = QueryFunc_defaultIfEmpty, args = []\<rparr>]) [numbers [3, 1, 2]])
        = [numbers [3, 1, 2], numbers [3, 2, 1]]
     \<and> unchanged [numbers [1, 2, 1]]
         (snd (iterate (on_numbers rt)
            [\<lparr>type = QueryFunc_groupBy, args = [callable identity, callable identity]\<rparr>]
            (Lazy 0 (Reference 0)) [numbers [1, 2, 1]]))
     \<and> length (snd (iterate (on_numbers rt)
            [\<lparr>type = QueryFunc_groupBy, args = [callable identity, callable identity]\<rparr>]
            (Lazy 0 (Reference 0)) [numbers [1, 2, 1]])) = 4"
proof (intro allI conjI)
  fix rt :: "unit runtime"
  let ?parts = "[\<lparr>type = QueryFunc_thenBy, args = [callable identity]\<rparr>,
                 \<lparr>type = QueryFunc_defaultIfEmpty, args = []\<rparr>] :: unit part list"
  let ?grouping = "[\<lparr>type = QueryFunc_groupBy, args = [callable identity, callable identity]\<rparr>]
                     :: unit part list"
  show "unchanged [numbers [3, 1, 2]]
          (snd (execute_h (on_numbers rt) (Reference 0) (Val ?parts) [numbers [3, 1, 2]]))"
    using source_array_unchanged
      [of "[numbers [3, 1, 2]]" "on_numbers rt" "Reference 0" "Val ?parts"]
    by simp
  show "snd (execute_h (on_numbers rt) (Reference 0) (Val ?parts) [numbers [3, 1, 2]])
          = [numbers [3, 1, 2], numbers [3, 2, 1]]"
    unfolding orderBy_example by simp
  show "unchanged [numbers [1, 2, 1]]
          (snd (iterate (on_numbers rt) ?grouping (Lazy 0 (Reference 0)) [numbers [1, 2, 1]]))"
    using source_array_unchanged
      [of "[numbers [1, 2, 1]]" "on_numbers rt" _ _ ?grouping "Lazy 0 (Reference 0)"]
    by simp
  show "length (snd (iterate (on_numbers rt) ?grouping (Lazy 0 (Reference 0))
          [numbers [1, 2, 1]])) = 4"
    unfolding groupBy_example by simp
qed

end
